theory Spec2Isabelle
  imports Main "HOL-Library.Sublist"
begin

section \<open>Target policy guard (\<open>ToolsService.isTargetAllowed\<close>)\<close>

text \<open>
  The allow-list of \<open>ToolsService\<close> holds two literal strings and three regular
  expressions.  A regular expression is modelled by its syntax tree (a run of literal
  characters, a character range \<open>[a-b]\<close>, a character set, sequence, alternation) and
  a backtracking matcher that returns the remainders left after every way of matching at
  the start of the subject.  All three patterns of the source begin with \<open>^\<close> and carry neither
  flags nor \<open>$\<close>, so \<open>RegExp.test\<close> succeeds exactly when some match at position 0
  exists.
\<close>

datatype regex =
    Lit string
  | Range char char
  | OneOf "char list"
  | Seq regex regex
  | Alt regex regex

fun rx_match :: "regex \<Rightarrow> string \<Rightarrow> string list" where
  "rx_match (Lit cs) s = (if prefix cs s then [drop (length cs) s] else [])"
| "rx_match (Range lo hi) s =
     (case s of [] \<Rightarrow> []
      | x # xs \<Rightarrow> if (of_char lo :: nat) \<le> of_char x \<and> (of_char x :: nat) \<le> of_char hi
                  then [xs] else [])"
| "rx_match (OneOf cs) s = (case s of [] \<Rightarrow> [] | x # xs \<Rightarrow> if x \<in> set cs then [xs] else [])"
| "rx_match (Seq r1 r2) s = concat (map (rx_match r2) (rx_match r1 s))"
| "rx_match (Alt r1 r2) s = rx_match r1 s @ rx_match r2 s"

definition rx_test :: "regex \<Rightarrow> string \<Rightarrow> bool" where
  "rx_test r s = (rx_match r s \<noteq> [])"

datatype allowed_pattern = Str string | Rx regex

text \<open>\<open>/^192\.168\./\<close>, \<open>/^10\./\<close> and \<open>/^172\.(1[6-9]|2[0-9]|3[01])\./\<close>.\<close>

definition rx_192_168 :: regex where
  "rx_192_168 = Lit ''192.168.''"

definition rx_10 :: regex where
  "rx_10 = Lit ''10.''"

definition rx_172 :: regex where
  "rx_172 =
     Seq (Lit ''172.'')
       (Seq (Alt (Seq (Lit ''1'') (Range CHR ''6'' CHR ''9''))
              (Alt (Seq (Lit ''2'') (Range CHR ''0'' CHR ''9''))
                   (Seq (Lit ''3'') (OneOf ''01''))))
            (Lit ''.''))"

definition allowedTargets :: "allowed_pattern list" where
  "allowedTargets =
     [Str ''127.0.0.1'', Str ''localhost'', Rx rx_192_168, Rx rx_10, Rx rx_172]"

text \<open>
  The loop of \<open>isTargetAllowed\<close>: the first pattern that accepts the target returns
  \<open>true\<close>; a string pattern accepts by \<open>===\<close>, a regular expression by \<open>test\<close>.
\<close>

fun target_matches :: "allowed_pattern list \<Rightarrow> string \<Rightarrow> bool" where
  "target_matches [] t = False"
| "target_matches (Str s # ps) t = (if t = s then True else target_matches ps t)"
| "target_matches (Rx r # ps) t = (if rx_test r t then True else target_matches ps t)"

definition isTargetAllowed :: "string \<Rightarrow> bool" where
  "isTargetAllowed t = target_matches allowedTargets t"

subsection \<open>IPv4 literals and the private ranges, as the specification names them\<close>

text \<open>
  The specification speaks of IPv4 literals and of the ranges \<open>10.0.0.0/8\<close>,
  \<open>172.16.0.0/12\<close> and \<open>192.168.0.0/16\<close>.  These definitions follow the specification's
  words, to be compared with the guard of the source: a dotted-quad literal is the decimal
  rendering of four octets, its value is the 32-bit number they form, and an address
  lies in \<open>base/len\<close> when the leading \<open>len\<close> bits agree.
\<close>

definition digit_char :: "nat \<Rightarrow> char" where
  "digit_char n = ''0123456789'' ! (n mod 10)"

definition octet_str :: "nat \<Rightarrow> string" where
  "octet_str n =
     (if n < 10 then [digit_char n]
      else if n < 100 then [digit_char (n div 10), digit_char (n mod 10)]
      else [digit_char (n div 100), digit_char (n div 10 mod 10), digit_char (n mod 10)])"

definition ipv4_literal :: "nat \<Rightarrow> nat \<Rightarrow> nat \<Rightarrow> nat \<Rightarrow> string" where
  "ipv4_literal a b c d =
     octet_str a @ ''.'' @ octet_str b @ ''.'' @ octet_str c @ ''.'' @ octet_str d"

definition ipv4_value :: "nat \<Rightarrow> nat \<Rightarrow> nat \<Rightarrow> nat \<Rightarrow> nat" where
  "ipv4_value a b c d = ((a * 256 + b) * 256 + c) * 256 + d"

definition in_cidr :: "nat \<Rightarrow> nat \<Rightarrow> nat \<Rightarrow> bool" where
  "in_cidr ip base len = (ip div 2 ^ (32 - len) = base div 2 ^ (32 - len))"

definition in_private_range :: "nat \<Rightarrow> bool" where
  "in_private_range ip =
     (in_cidr ip (ipv4_value 10 0 0 0) 8
      \<or> in_cidr ip (ipv4_value 172 16 0 0) 12
      \<or> in_cidr ip (ipv4_value 192 168 0 0) 16)"

text \<open>Reading an octet back from its rendering, and the sixteen prefixes \<open>172.16.\<close> to
  \<open>172.31.\<close>; both serve the proofs only.\<close>

definition octet_val :: "string \<Rightarrow> nat" where
  "octet_val s = foldl (\<lambda>acc c. acc * 10 + (of_char c - 48)) 0 s"

definition prefix_172_16_31 :: "string \<Rightarrow> bool" where
  "prefix_172_16_31 t \<longleftrightarrow>
     (prefix ''172.16.'' t \<or> prefix ''172.17.'' t \<or> prefix ''172.18.'' t
      \<or> prefix ''172.19.'' t \<or> prefix ''172.20.'' t \<or> prefix ''172.21.'' t
      \<or> prefix ''172.22.'' t \<or> prefix ''172.23.'' t \<or> prefix ''172.24.'' t
      \<or> prefix ''172.25.'' t \<or> prefix ''172.26.'' t \<or> prefix ''172.27.'' t
      \<or> prefix ''172.28.'' t \<or> prefix ''172.29.'' t \<or> prefix ''172.30.'' t
      \<or> prefix ''172.31.'' t)"

section \<open>Tools service (\<open>ToolsService\<close>)\<close>

subsection \<open>Values, errors and promises\<close>

text \<open>
  Every \<open>throw\<close> of the service raises a JavaScript \<open>Error\<close> carrying a message.  An
  \<open>async\<close> function yields a promise: it resolves with a value, rejects with an error,
  or never settles (the awaiting caller then never continues).
\<close>

datatype js_error = Error string

fun message :: "js_error \<Rightarrow> string" where
  "message (Error m) = m"

datatype 'a promise = Unsettled | Rejected js_error | Resolved 'a

datatype risk_level = Low | Medium | High

text \<open>
  A value as it arrives in a JSON object whose fields are not checked (\<open>z.any()\<close>): a
  field that is absent (\<open>undefined\<close>), \<open>null\<close>, a boolean, a number that is an integer, a
  number that is not, a string, or an array or object.  \<open>truthy\<close> is JavaScript's
  conversion to a boolean and \<open>js_or\<close> the operator \<open>||\<close>.
\<close>

datatype js_value =
    JsUndefined
  | JsNull
  | JsBool bool
  | JsInteger int
  | JsNonInteger
  | JsString string
  | JsObject

fun truthy :: "js_value \<Rightarrow> bool" where
  "truthy JsUndefined = False"
| "truthy JsNull = False"
| "truthy (JsBool b) = b"
| "truthy (JsInteger n) = (n \<noteq> 0)"
| "truthy JsNonInteger = True"
| "truthy (JsString s) = (s \<noteq> [])"
| "truthy JsObject = True"

definition js_or :: "js_value \<Rightarrow> js_value \<Rightarrow> js_value" where
  "js_or v d = (if truthy v then v else d)"

text \<open>
  The argument object of a tool call (\<open>args: any\<close>; the route only checks that it is a
  JSON object).  It carries the fields of \<open>NmapScanOptions\<close> and \<open>DomainIntelOptions\<close>
  and \<open>recordType\<close>; a field that is absent reads as \<open>undefined\<close>, here \<open>None\<close>.  The
  \<open>timeout\<close> is handed to the runtime as it arrives, so it is kept as a JSON value.
\<close>

record tool_args =
  target :: "string option"
  scanType :: "string option"
  ports :: "string option"
  timeout :: js_value
  domain :: "string option"
  recordType :: "string option"
  includeSubdomains :: "bool option"
  includeWhois :: "bool option"
  includeDNS :: "bool option"

text \<open>
  Where JavaScript turns a value into a string (\<open>RegExp.test\<close>, a template literal, an
  argument handed to \<open>spawn\<close>), \<open>undefined\<close> becomes the text \<open>undefined\<close>.  \<open>x || d\<close> on
  an optional size takes \<open>d\<close> for \<open>undefined\<close> and for \<open>0\<close>.
\<close>

definition js_string :: "string option \<Rightarrow> string" where
  "js_string v = (case v of None \<Rightarrow> ''undefined'' | Some s \<Rightarrow> s)"

definition or_default :: "nat option \<Rightarrow> nat \<Rightarrow> nat" where
  "or_default v d = (case v of None \<Rightarrow> d | Some n \<Rightarrow> if n = 0 then d else n)"

subsection \<open>Command runner (\<open>executeCommand\<close>)\<close>

text \<open>
  \<open>executeCommand\<close> calls \<open>spawn\<close> inside the executor of a promise and registers four
  handlers on the child.  What \<open>spawn\<close> and the child do is the environment's part: the
  runtime and the operating system answer a spawn request either with an error thrown
  inside the executor (\<open>spawn\<close> refuses the request, or no child could be started), in
  which case no process runs and the promise is rejected with that error, or by starting
  a child, which emits a sequence of events.  \<open>Close None\<close> is a \<open>close\<close> event
  whose exit code is \<open>null\<close>, which the runtime emits when the child was ended by a
  signal, as it is when the \<open>timeout\<close> given to \<open>spawn\<close> expires.  Every process that
  is started is appended to a log.
\<close>

datatype child_event =
    StdoutData string
  | StderrData string
  | Close "int option"
  | ErrorEvent js_error

record spawn_request =
  spawn_command :: string
  spawn_args :: "string list"
  spawn_timeout :: js_value

datatype spawn_reply = Throws js_error | Started "child_event list"

type_synonym os = "spawn_request \<Rightarrow> spawn_reply"

text \<open>
  The requests the runtime refuses before it starts anything: \<open>spawn\<close> throws when the
  \<open>timeout\<close> is given and is not an unsigned integer, and when the command or an
  argument contains a NUL character.  (It may throw for other reasons as well.)
\<close>

definition timeout_accepted :: "js_value \<Rightarrow> bool" where
  "timeout_accepted v =
     (case v of JsUndefined \<Rightarrow> True | JsNull \<Rightarrow> True | JsInteger n \<Rightarrow> 0 \<le> n
      | _ \<Rightarrow> False)"

definition has_nul :: "string \<Rightarrow> bool" where
  "has_nul s = (CHR 0x00 \<in> set s)"

definition spawn_arguments_valid :: "spawn_request \<Rightarrow> bool" where
  "spawn_arguments_valid req =
     (timeout_accepted (spawn_timeout req) \<and> \<not> has_nul (spawn_command req)
      \<and> list_all (\<lambda>a. \<not> has_nul a) (spawn_args req))"

record command_result =
  stdout :: string
  stderr :: string
  exitCode :: int

record exec_options =
  opt_timeout :: js_value
  opt_maxOutputSize :: "nat option"

text \<open>The variables of the promise executor's closure, and the promise itself.\<close>

record runner_state =
  acc_stdout :: string
  acc_stderr :: string
  outputSize :: nat
  killed :: bool
  outcome :: "command_result promise"

text \<open>
  \<open>resolve\<close> and \<open>reject\<close> settle a promise once; later calls change nothing.  The
  \<open>close\<close> handler resolves with \<open>exitCode: code || 0\<close>, so a \<open>null\<close> code reads as 0.
\<close>

definition settle :: "command_result promise \<Rightarrow> runner_state \<Rightarrow> runner_state" where
  "settle p st = (if outcome st = Unsettled then st\<lparr>outcome := p\<rparr> else st)"

fun on_event :: "nat \<Rightarrow> runner_state \<Rightarrow> child_event \<Rightarrow> runner_state" where
  "on_event maxSize st (StdoutData d) =
     (let st1 = st\<lparr>outputSize := outputSize st + length d\<rparr>
      in if outputSize st1 > maxSize
         then settle (Rejected (Error ''Output size limit exceeded'')) (st1\<lparr>killed := True\<rparr>)
         else st1\<lparr>acc_stdout := acc_stdout st1 @ d\<rparr>)"
| "on_event maxSize st (StderrData d) = st\<lparr>acc_stderr := acc_stderr st @ d\<rparr>"
| "on_event maxSize st (Close code) =
     settle (Resolved \<lparr>stdout = acc_stdout st, stderr = acc_stderr st,
                       exitCode = (case code of None \<Rightarrow> 0 | Some c \<Rightarrow> c)\<rparr>)
       st"
| "on_event maxSize st (ErrorEvent e) = settle (Rejected e) st"

definition initial_state :: runner_state where
  "initial_state =
     \<lparr>acc_stdout = [], acc_stderr = [], outputSize = 0, killed = False, outcome = Unsettled\<rparr>"

definition run_child :: "nat \<Rightarrow> child_event list \<Rightarrow> runner_state" where
  "run_child maxSize evs = foldl (on_event maxSize) initial_state evs"

definition executeCommand ::
  "os \<Rightarrow> string \<Rightarrow> string list \<Rightarrow> exec_options \<Rightarrow> spawn_request list
     \<Rightarrow> command_result promise \<times> spawn_request list" where
  "executeCommand env cmd args options log =
     (let req = \<lparr>spawn_command = cmd, spawn_args = args,
                  spawn_timeout = js_or (opt_timeout options) (JsInteger 30000)\<rparr>;
          maxSize = or_default (opt_maxOutputSize options) (1024 * 1024)
      in case env req of
           Throws e \<Rightarrow> (Rejected e, log)
         | Started evs \<Rightarrow> (outcome (run_child maxSize evs), log @ [req]))"

subsection \<open>Scan adapter\<close>

definition buildNmapArgs :: "tool_args \<Rightarrow> string list" where
  "buildNmapArgs options =
     (let args = [];
          args = args @ [''-T2''];
          args = args @ [''--max-rate'', ''100''];
          args = args @ [''--max-retries'', ''1''];
          args = (if scanType options = Some ''ping'' then args @ [''-sn'']
                  else if scanType options = Some ''tcp'' then args @ [''-sT'']
                  else if scanType options = Some ''syn'' then args @ [''-sS'']
                  else if scanType options = Some ''udp'' then args @ [''-sU'']
                  else if scanType options = Some ''service'' then args @ [''-sV'']
                  else args);
          args = (case ports options of
                    Some p \<Rightarrow> if p \<noteq> [] then args @ [''-p'', p]
                              else args @ [''--top-ports'', ''100'']
                  | None \<Rightarrow> args @ [''--top-ports'', ''100'']);
          args = args @ [''-oX'', ''-''];
          args = args @ [js_string (target options)]
      in args)"

text \<open>
  \<open>parseNmapOutput\<close> and \<open>parseWhoisOutput\<close> are total functions of the captured text
  (regular-expression extraction and line splitting, nothing thrown).  Their structured
  results are represented by the text they are computed from.  Fields that only hold
  clock readings (\<open>timestamp\<close>, \<open>executionTime\<close>) are left out of all results.
\<close>

datatype nmap_result = ParsedNmap string

datatype whois_result = ParsedWhois string

definition parseNmapOutput :: "string \<Rightarrow> nmap_result" where
  "parseNmapOutput xmlOutput = ParsedNmap xmlOutput"

definition parseWhoisOutput :: "string \<Rightarrow> whois_result" where
  "parseWhoisOutput whoisText = ParsedWhois whoisText"

text \<open>
  \<open>isTargetAllowed(options.target)\<close> on an absent target: \<open>undefined\<close> is \<open>===\<close> to no
  string, and \<open>test\<close> converts it to the text \<open>undefined\<close>, which is none of the two
  literals either, so the guard on the converted value gives the same answer.
\<close>

definition executeNmap ::
  "os \<Rightarrow> tool_args \<Rightarrow> spawn_request list \<Rightarrow> nmap_result promise \<times> spawn_request list" where
  "executeNmap env options log =
     (if \<not> isTargetAllowed (js_string (target options))
      then (Rejected (Error ''Target not allowed. Only local/private networks are permitted.''),
            log)
      else
        (let args = buildNmapArgs options
         in case executeCommand env ''nmap'' args
                   \<lparr>opt_timeout = js_or (timeout options) (JsInteger 30000),
                    opt_maxOutputSize = Some (1024 * 1024)\<rparr> log of
              (Unsettled, log') \<Rightarrow> (Unsettled, log')
            | (Rejected e, log') \<Rightarrow> (Rejected e, log')
            | (Resolved res, log') \<Rightarrow> (Resolved (parseNmapOutput (stdout res)), log')))"

definition assessNmapRisk :: "tool_args \<Rightarrow> risk_level" where
  "assessNmapRisk options =
     (let risk = Low;
          risk = (if scanType options = Some ''syn'' \<or> scanType options = Some ''udp''
                  then Medium else risk);
          risk = (if scanType options = Some ''service'' then Medium else risk);
          risk = (if \<not> isTargetAllowed (js_string (target options)) then High else risk)
      in risk)"

definition assessRiskLevel :: "string \<Rightarrow> tool_args \<Rightarrow> risk_level" where
  "assessRiskLevel toolName args =
     (if toolName = ''nmap'' then assessNmapRisk args
      else if toolName = ''domain_intel'' \<or> toolName = ''whois'' \<or> toolName = ''dns_lookup''
      then Low
      else High)"

subsection \<open>DNS, WHOIS and domain intelligence adapters\<close>

text \<open>
  \<open>String.prototype.trim\<close> strips white space at both ends (here the ASCII white space
  characters); \<open>split\<close> cuts at every line feed.
\<close>

definition is_space :: "char \<Rightarrow> bool" where
  "is_space c = (c \<in> set [CHR '' '', CHR 0x09, CHR 0x0A, CHR 0x0B, CHR 0x0C, CHR 0x0D])"

definition trim :: "string \<Rightarrow> string" where
  "trim s = rev (dropWhile is_space (rev (dropWhile is_space s)))"

fun split_on :: "char \<Rightarrow> string \<Rightarrow> string list" where
  "split_on c [] = [[]]"
| "split_on c (x # xs) =
     (if x = c then [] # split_on c xs
      else (case split_on c xs of [] \<Rightarrow> [[x]] | l # ls \<Rightarrow> (x # l) # ls))"

record dns_result =
  dns_domain :: "string option"
  dns_recordType :: string
  records :: "string list"

definition executeWhois ::
  "os \<Rightarrow> string option \<Rightarrow> spawn_request list \<Rightarrow> whois_result promise \<times> spawn_request list"
  where
  "executeWhois env domainName log =
     (case executeCommand env ''whois'' [js_string domainName]
             \<lparr>opt_timeout = JsInteger 10000, opt_maxOutputSize = None\<rparr> log of
        (Unsettled, log') \<Rightarrow> (Unsettled, log')
      | (Rejected e, log') \<Rightarrow> (Rejected e, log')
      | (Resolved res, log') \<Rightarrow> (Resolved (parseWhoisOutput (stdout res)), log'))"

text \<open>The parameter \<open>recordType\<close> has the default \<open>"A"\<close>, taken when it is \<open>undefined\<close>.\<close>

definition executeDNSLookup ::
  "os \<Rightarrow> string option \<Rightarrow> string option \<Rightarrow> spawn_request list
     \<Rightarrow> dns_result promise \<times> spawn_request list" where
  "executeDNSLookup env domainName rtype log =
     (let recordType = (case rtype of None \<Rightarrow> ''A'' | Some r \<Rightarrow> r)
      in case executeCommand env ''dig'' [''+short'', js_string domainName, recordType]
                \<lparr>opt_timeout = JsInteger 5000, opt_maxOutputSize = None\<rparr> log of
           (Unsettled, log') \<Rightarrow> (Unsettled, log')
         | (Rejected e, log') \<Rightarrow> (Rejected e, log')
         | (Resolved res, log') \<Rightarrow>
             (Resolved \<lparr>dns_domain = domainName, dns_recordType = recordType,
                        records = filter (\<lambda>line. length line > 0)
                                    (split_on CHR 0x0A (trim (stdout res)))\<rparr>, log'))"

record found_subdomain =
  subdomain :: string
  subdomain_records :: "string list"

record subdomain_result =
  sub_domain :: "string option"
  subdomains :: "found_subdomain list"
  method_used :: string

definition commonSubdomains :: "string list" where
  "commonSubdomains =
     [''www'', ''mail'', ''ftp'', ''admin'', ''test'', ''dev'', ''staging'', ''api'',
      ''blog'', ''shop'', ''support'', ''portal'', ''secure'', ''vpn'']"

text \<open>The loop of \<open>enumerateSubdomains\<close>; a lookup that throws is skipped.\<close>

fun enumerate_loop ::
  "os \<Rightarrow> string option \<Rightarrow> string list \<Rightarrow> found_subdomain list \<Rightarrow> spawn_request list
     \<Rightarrow> found_subdomain list promise \<times> spawn_request list" where
  "enumerate_loop env domainName [] foundSubdomains log = (Resolved foundSubdomains, log)"
| "enumerate_loop env domainName (sub # subs) foundSubdomains log =
     (let fullDomain = sub @ ''.'' @ js_string domainName
      in case executeDNSLookup env (Some fullDomain) (Some ''A'') log of
           (Unsettled, log') \<Rightarrow> (Unsettled, log')
         | (Rejected e, log') \<Rightarrow> enumerate_loop env domainName subs foundSubdomains log'
         | (Resolved res, log') \<Rightarrow>
             enumerate_loop env domainName subs
               (if length (records res) > 0
                then foundSubdomains
                       @ [\<lparr>subdomain = fullDomain, subdomain_records = records res\<rparr>]
                else foundSubdomains)
               log')"

definition enumerateSubdomains ::
  "os \<Rightarrow> string option \<Rightarrow> spawn_request list
     \<Rightarrow> subdomain_result promise \<times> spawn_request list" where
  "enumerateSubdomains env domainName log =
     (case enumerate_loop env domainName commonSubdomains [] log of
        (Unsettled, log') \<Rightarrow> (Unsettled, log')
      | (Rejected e, log') \<Rightarrow> (Rejected e, log')
      | (Resolved found, log') \<Rightarrow>
          (Resolved \<lparr>sub_domain = domainName, subdomains = found, method_used = ''passive_dns''\<rparr>, log'))"

text \<open>
  A part of the domain report is the adapter's result or, when the adapter threw,
  the object \<open>{error: message}\<close>.  \<open>try_part\<close> is the \<open>try\<close>/\<open>catch\<close> around the awaited
  call of each part.
\<close>

datatype 'a part = Part 'a | PartError string

record domain_intel =
  di_domain :: "string option"
  di_dns :: "dns_result part option"
  di_whois :: "whois_result part option"
  di_subdomains :: "subdomain_result part option"

definition attempt :: "'a promise \<Rightarrow> 'a part promise" where
  "attempt p =
     (case p of Unsettled \<Rightarrow> Unsettled
      | Rejected e \<Rightarrow> Resolved (PartError (message e))
      | Resolved v \<Rightarrow> Resolved (Part v))"

definition try_part ::
  "(spawn_request list \<Rightarrow> 'a promise \<times> spawn_request list) \<Rightarrow> spawn_request list
     \<Rightarrow> 'a part promise \<times> spawn_request list" where
  "try_part call log = (case call log of (p, log') \<Rightarrow> (attempt p, log'))"

text \<open>\<open>await\<close>: the rest of the function runs once the promise has resolved.\<close>

definition await ::
  "'a promise \<times> spawn_request list \<Rightarrow> ('a \<Rightarrow> spawn_request list \<Rightarrow> 'b promise \<times> spawn_request list)
     \<Rightarrow> 'b promise \<times> spawn_request list" where
  "await m rest =
     (case m of
        (Unsettled, log') \<Rightarrow> (Unsettled, log')
      | (Rejected e, log') \<Rightarrow> (Rejected e, log')
      | (Resolved v, log') \<Rightarrow> rest v log')"

definition executeDomainIntel ::
  "os \<Rightarrow> tool_args \<Rightarrow> spawn_request list \<Rightarrow> domain_intel promise \<times> spawn_request list"
  where
  "executeDomainIntel env options log =
     (let results = \<lparr>di_domain = domain options, di_dns = None, di_whois = None,
                      di_subdomains = None\<rparr>
      in await
           (if includeDNS options \<noteq> Some False
            then await (try_part (executeDNSLookup env (domain options) (Some ''A'')) log)
                   (\<lambda>v log'. (Resolved (results\<lparr>di_dns := Some v\<rparr>), log'))
            else (Resolved results, log))
           (\<lambda>results log.
              await
                (if includeWhois options = Some True
                 then await (try_part (executeWhois env (domain options)) log)
                        (\<lambda>v log'. (Resolved (results\<lparr>di_whois := Some v\<rparr>), log'))
                 else (Resolved results, log))
                (\<lambda>results log.
                   if includeSubdomains options = Some True
                   then await (try_part (enumerateSubdomains env (domain options)) log)
                          (\<lambda>v log'. (Resolved (results\<lparr>di_subdomains := Some v\<rparr>), log'))
                   else (Resolved results, log))))"

subsection \<open>\<open>executeTool\<close>\<close>

datatype tool_data =
    NmapData nmap_result
  | DomainIntelData domain_intel
  | WhoisData whois_result
  | DnsData dns_result

text \<open>The \<open>result\<close> of an audit entry is the tool's result or \<open>{error: message}\<close>.\<close>

datatype audit_result = AuditData tool_data | AuditError string

record audit_log =
  command :: string
  arguments :: tool_args
  result :: audit_result

record ToolResult =
  success :: bool
  data :: "tool_data option"
  error :: "string option"
  riskLevel :: risk_level
  auditLog :: audit_log

text \<open>The body of the \<open>try\<close> block: the tool's result and the risk level of the call.\<close>

definition run_tool ::
  "os \<Rightarrow> string \<Rightarrow> tool_args \<Rightarrow> spawn_request list
     \<Rightarrow> (tool_data \<times> risk_level) promise \<times> spawn_request list" where
  "run_tool env toolName args log =
     (if toolName = ''nmap'' then
        (case executeNmap env args log of
           (Unsettled, log') \<Rightarrow> (Unsettled, log')
         | (Rejected e, log') \<Rightarrow> (Rejected e, log')
         | (Resolved r, log') \<Rightarrow> (Resolved (NmapData r, assessNmapRisk args), log'))
      else if toolName = ''domain_intel'' then
        (case executeDomainIntel env args log of
           (Unsettled, log') \<Rightarrow> (Unsettled, log')
         | (Rejected e, log') \<Rightarrow> (Rejected e, log')
         | (Resolved r, log') \<Rightarrow> (Resolved (DomainIntelData r, Low), log'))
      else if toolName = ''whois'' then
        (case executeWhois env (domain args) log of
           (Unsettled, log') \<Rightarrow> (Unsettled, log')
         | (Rejected e, log') \<Rightarrow> (Rejected e, log')
         | (Resolved r, log') \<Rightarrow> (Resolved (WhoisData r, Low), log'))
      else if toolName = ''dns_lookup'' then
        (case executeDNSLookup env (domain args) (recordType args) log of
           (Unsettled, log') \<Rightarrow> (Unsettled, log')
         | (Rejected e, log') \<Rightarrow> (Rejected e, log')
         | (Resolved r, log') \<Rightarrow> (Resolved (DnsData r, Low), log'))
      else (Rejected (Error (''Unknown tool: '' @ toolName)), log))"

text \<open>\<open>executeTool\<close>: the \<open>try\<close> block returns the success record, the \<open>catch\<close> block the
  failure record.\<close>

definition executeTool ::
  "os \<Rightarrow> string \<Rightarrow> tool_args \<Rightarrow> spawn_request list
     \<Rightarrow> ToolResult promise \<times> spawn_request list" where
  "executeTool env toolName args log =
     (case run_tool env toolName args log of
        (Unsettled, log') \<Rightarrow> (Unsettled, log')
      | (Resolved (res, risk), log') \<Rightarrow>
          (Resolved \<lparr>success = True, data = Some res, error = None, riskLevel = risk,
                     auditLog = \<lparr>command = toolName, arguments = args,
                                 result = AuditData res\<rparr>\<rparr>, log')
      | (Rejected e, log') \<Rightarrow>
          (Resolved \<lparr>success = False, data = None, error = Some (message e),
                     riskLevel = High,
                     auditLog = \<lparr>command = toolName, arguments = args,
                                 result = AuditError (message e)\<rparr>\<rparr>, log'))"

section \<open>Tool-run ledger (\<open>storage\<close>) and the tool routes\<close>

subsection \<open>The \<open>tool_runs\<close> table\<close>

datatype run_status = Pending | Approved | Running | Completed | Failed

text \<open>
  A row of \<open>tool_runs\<close>.  The columns \<open>result\<close> and \<open>audit_log\<close> default to the empty JSON
  object, read here as \<open>None\<close>; nullable columns are options; timestamps are clock
  readings.
\<close>

record ToolRun =
  run_id :: string
  sessionId :: string
  messageId :: "string option"
  toolName :: string
  arguments :: tool_args
  result :: "ToolResult option"
  status :: run_status
  riskLevel :: risk_level
  approvalRequired :: bool
  approvedBy :: "string option"
  approvedAt :: "nat option"
  executedAt :: "nat option"
  completedAt :: "nat option"
  errorMessage :: "string option"
  auditLog :: "audit_log option"
  createdAt :: nat

text \<open>\<open>Partial<ToolRun>\<close>: every column may be given or left out.\<close>

record ToolRun_partial =
  set_sessionId :: "string option"
  set_messageId :: "string option option"
  set_toolName :: "string option"
  set_arguments :: "tool_args option"
  set_result :: "ToolResult option"
  set_status :: "run_status option"
  set_riskLevel :: "risk_level option"
  set_approvalRequired :: "bool option"
  set_approvedBy :: "string option"
  set_approvedAt :: "nat option"
  set_executedAt :: "nat option"
  set_completedAt :: "nat option"
  set_errorMessage :: "string option"
  set_auditLog :: "audit_log option"

definition no_updates :: ToolRun_partial where
  "no_updates =
     \<lparr>set_sessionId = None, set_messageId = None, set_toolName = None,
      set_arguments = None, set_result = None, set_status = None, set_riskLevel = None,
      set_approvalRequired = None, set_approvedBy = None, set_approvedAt = None,
      set_executedAt = None, set_completedAt = None, set_errorMessage = None,
      set_auditLog = None\<rparr>"

definition apply_updates :: "ToolRun_partial \<Rightarrow> ToolRun \<Rightarrow> ToolRun" where
  "apply_updates u row =
     (let row = (case set_sessionId u of None \<Rightarrow> row | Some v \<Rightarrow> row\<lparr>sessionId := v\<rparr>);
          row = (case set_messageId u of None \<Rightarrow> row | Some v \<Rightarrow> row\<lparr>messageId := v\<rparr>);
          row = (case set_toolName u of None \<Rightarrow> row | Some v \<Rightarrow> row\<lparr>toolName := v\<rparr>);
          row = (case set_arguments u of None \<Rightarrow> row | Some v \<Rightarrow> row\<lparr>arguments := v\<rparr>);
          row = (case set_result u of None \<Rightarrow> row | Some v \<Rightarrow> row\<lparr>result := Some v\<rparr>);
          row = (case set_status u of None \<Rightarrow> row | Some v \<Rightarrow> row\<lparr>status := v\<rparr>);
          row = (case set_riskLevel u of None \<Rightarrow> row | Some v \<Rightarrow> row\<lparr>riskLevel := v\<rparr>);
          row = (case set_approvalRequired u of None \<Rightarrow> row
                 | Some v \<Rightarrow> row\<lparr>approvalRequired := v\<rparr>);
          row = (case set_approvedBy u of None \<Rightarrow> row | Some v \<Rightarrow> row\<lparr>approvedBy := Some v\<rparr>);
          row = (case set_approvedAt u of None \<Rightarrow> row | Some v \<Rightarrow> row\<lparr>approvedAt := Some v\<rparr>);
          row = (case set_executedAt u of None \<Rightarrow> row | Some v \<Rightarrow> row\<lparr>executedAt := Some v\<rparr>);
          row = (case set_completedAt u of None \<Rightarrow> row
                 | Some v \<Rightarrow> row\<lparr>completedAt := Some v\<rparr>);
          row = (case set_errorMessage u of None \<Rightarrow> row
                 | Some v \<Rightarrow> row\<lparr>errorMessage := Some v\<rparr>);
          row = (case set_auditLog u of None \<Rightarrow> row | Some v \<Rightarrow> row\<lparr>auditLog := Some v\<rparr>)
      in row)"

text \<open>
  The state the routes act on: the table, keyed by its primary key; the rows returned
  by every \<open>insert\<close> and \<open>update\<close> statement so far, in order (each statement is one
  observable state of the row it writes); and the log of spawned processes.
\<close>

record world =
  runs :: "string \<rightharpoonup> ToolRun"
  writes :: "ToolRun list"
  spawned :: "spawn_request list"

text \<open>
  \<open>createToolRun\<close> inserts the given columns; the database fills in the primary key
  (\<open>gen_random_uuid()\<close>, here the parameter \<open>fresh_id\<close>), \<open>created_at\<close> and the defaults.  An
  insert whose key is already present violates the primary key and throws.  An insert
  can fail for other reasons as well (a \<open>session_id\<close> that names no session violates the
  foreign key); such an insert leaves no row and the route answers with status 500 as
  it does here.  The sessions are not part of the state, so only the primary key is
  checked: what follows is about the rows that were inserted.
\<close>

definition createToolRun ::
  "string \<Rightarrow> nat \<Rightarrow> string \<Rightarrow> string \<Rightarrow> tool_args \<Rightarrow> run_status \<Rightarrow> bool \<Rightarrow> risk_level
     \<Rightarrow> world \<Rightarrow> ToolRun promise \<times> world" where
  "createToolRun fresh_id now session tool args st approval risk w =
     (case runs w fresh_id of
        Some existing \<Rightarrow>
          (Rejected (Error ''duplicate key value violates unique constraint''), w)
      | None \<Rightarrow>
          (let newToolRun =
                 \<lparr>run_id = fresh_id, sessionId = session, messageId = None, toolName = tool,
                  arguments = args, result = None, status = st, riskLevel = risk,
                  approvalRequired = approval, approvedBy = None, approvedAt = None,
                  executedAt = None, completedAt = None, errorMessage = None,
                  auditLog = None, createdAt = now\<rparr>
           in (Resolved newToolRun,
               w\<lparr>runs := (runs w)(fresh_id \<mapsto> newToolRun),
                 writes := writes w @ [newToolRun]\<rparr>)))"

text \<open>
  The column \<open>id\<close> has the type \<open>uuid\<close>.  A query that compares it with a text makes the
  database convert the text: the conversion throws when the text is not the text of a
  uuid, and otherwise yields the uuid, which is written here in the form the database
  prints it in, the form of the keys of the table.  The conversion is the database's and
  is a parameter (\<open>uuid_in\<close>).  \<open>getToolRun\<close> is the query \<open>where id = $1\<close> on the text it is
  given.
\<close>

type_synonym uuid_input = "string \<Rightarrow> js_error + string"

definition getToolRun :: "uuid_input \<Rightarrow> string \<Rightarrow> world \<Rightarrow> ToolRun option promise" where
  "getToolRun uuid_in i w =
     (case uuid_in i of Inl e \<Rightarrow> Rejected e | Inr k \<Rightarrow> Resolved (runs w k))"

text \<open>
  \<open>updateToolRun\<close> changes the row with the given key, if there is one.  It is given the
  key that its id denotes: in the execute route the id is the \<open>id\<close> column of the row the
  database has just inserted, which is that row's key; in the approve route it is the
  text \<open>getToolRun\<close> has converted before (\<open>id_key\<close>).
\<close>

definition id_key :: "uuid_input \<Rightarrow> string \<Rightarrow> string" where
  "id_key uuid_in i = (case uuid_in i of Inl e \<Rightarrow> i | Inr k \<Rightarrow> k)"

definition updateToolRun ::
  "string \<Rightarrow> ToolRun_partial \<Rightarrow> world \<Rightarrow> ToolRun option \<times> world" where
  "updateToolRun i updates w =
     (case runs w i of
        None \<Rightarrow> (None, w)
      | Some row \<Rightarrow>
          (let toolRun = apply_updates updates row
           in (Some toolRun, w\<lparr>runs := (runs w)(i \<mapsto> toolRun), writes := writes w @ [toolRun]\<rparr>)))"

subsection \<open>\<open>POST /api/protected/tools/execute\<close> and \<open>POST /api/protected/tools/:id/approve\<close>\<close>

text \<open>
  The body of an execute request after \<open>toolExecutionSchema.parse\<close>.  A response is a
  status with a message or one of the three JSON answers; a handler that awaits a
  promise that never settles gives no response (\<open>None\<close>).  Each request reads the clock
  once (\<open>now\<close>).
\<close>

record exec_body =
  body_toolName :: string
  body_arguments :: tool_args
  body_sessionId :: string
  requiresApproval :: "bool option"

datatype response =
    StatusMessage nat string
  | ExecuteDone ToolRun ToolResult
  | ExecuteAwaitsApproval ToolRun
  | ApproveDone ToolResult

definition execute_route ::
  "os \<Rightarrow> string \<Rightarrow> nat \<Rightarrow> string option \<Rightarrow> exec_body \<Rightarrow> world \<Rightarrow> response option \<times> world"
  where
  "execute_route env fresh_id now user body w =
     (case user of
        None \<Rightarrow> (Some (StatusMessage 401 ''User not authenticated''), w)
      | Some userId \<Rightarrow>
          (case createToolRun fresh_id now (body_sessionId body) (body_toolName body)
                  (body_arguments body)
                  (if requiresApproval body = Some True then Pending else Running)
                  (requiresApproval body = Some True)
                  (assessRiskLevel (body_toolName body) (body_arguments body)) w of
             (Unsettled, w1) \<Rightarrow> (None, w1)
           | (Rejected e, w1) \<Rightarrow> (Some (StatusMessage 500 (message e)), w1)
           | (Resolved toolRun, w1) \<Rightarrow>
               (if requiresApproval body \<noteq> Some True then
                  (case executeTool env (body_toolName body) (body_arguments body)
                          (spawned w1) of
                     (Unsettled, log') \<Rightarrow> (None, w1\<lparr>spawned := log'\<rparr>)
                   | (Rejected e, log') \<Rightarrow>
                       (Some (StatusMessage 500 (message e)), w1\<lparr>spawned := log'\<rparr>)
                   | (Resolved res, log') \<Rightarrow>
                       (case updateToolRun (run_id toolRun)
                               (no_updates\<lparr>set_status := Some Completed,
                                  set_result := Some res, set_executedAt := Some now,
                                  set_completedAt := Some now\<rparr>)
                               (w1\<lparr>spawned := log'\<rparr>) of
                          (updated, w2) \<Rightarrow> (Some (ExecuteDone toolRun res), w2)))
                else (Some (ExecuteAwaitsApproval toolRun), w1))))"

text \<open>
  The approve route takes the id from the request path as it is.  An error thrown by
  \<open>getToolRun\<close> is caught by the route and answered with status 500.
\<close>

definition approve_route ::
  "os \<Rightarrow> uuid_input \<Rightarrow> nat \<Rightarrow> string option \<Rightarrow> string \<Rightarrow> world
     \<Rightarrow> response option \<times> world" where
  "approve_route env uuid_in now user toolRunId w =
     (case user of
        None \<Rightarrow> (Some (StatusMessage 401 ''User not authenticated''), w)
      | Some userId \<Rightarrow>
          (case getToolRun uuid_in toolRunId w of
             Unsettled \<Rightarrow> (None, w)
           | Rejected e \<Rightarrow> (Some (StatusMessage 500 (message e)), w)
           | Resolved None \<Rightarrow> (Some (StatusMessage 404 ''Tool run not found''), w)
           | Resolved (Some toolRun) \<Rightarrow>
               (case executeTool env (toolName toolRun) (arguments toolRun) (spawned w) of
                  (Unsettled, log') \<Rightarrow> (None, w\<lparr>spawned := log'\<rparr>)
                | (Rejected e, log') \<Rightarrow>
                    (Some (StatusMessage 500 (message e)), w\<lparr>spawned := log'\<rparr>)
                | (Resolved res, log') \<Rightarrow>
                    (case updateToolRun (id_key uuid_in toolRunId)
                            (no_updates\<lparr>set_status := Some Completed,
                               set_result := Some res, set_approvedBy := Some userId,
                               set_approvedAt := Some now, set_executedAt := Some now,
                               set_completedAt := Some now\<rparr>)
                            (w\<lparr>spawned := log'\<rparr>) of
                       (updated, w2) \<Rightarrow> (Some (ApproveDone res), w2)))))"

text \<open>The statuses a run has had, one for every statement that wrote its row.\<close>

definition status_history :: "string \<Rightarrow> world \<Rightarrow> run_status list" where
  "status_history i w = map status (filter (\<lambda>row. run_id row = i) (writes w))"

section \<open>Auxiliary notions for the statements\<close>

text \<open>The text a child wrote to each stream, and the events after which a child is gone.\<close>

fun stdout_text :: "child_event list \<Rightarrow> string" where
  "stdout_text [] = []"
| "stdout_text (StdoutData d # evs) = d @ stdout_text evs"
| "stdout_text (ev # evs) = stdout_text evs"

fun stderr_text :: "child_event list \<Rightarrow> string" where
  "stderr_text [] = []"
| "stderr_text (StderrData d # evs) = d @ stderr_text evs"
| "stderr_text (ev # evs) = stderr_text evs"

fun is_data :: "child_event \<Rightarrow> bool" where
  "is_data (StdoutData d) = True"
| "is_data (StderrData d) = True"
| "is_data ev = False"

fun is_terminal :: "child_event \<Rightarrow> bool" where
  "is_terminal (Close code) = True"
| "is_terminal (ErrorEvent e) = True"
| "is_terminal ev = False"

text \<open>Sample inputs: argument objects, environments and ledger states.\<close>

definition no_args :: tool_args where
  "no_args =
     \<lparr>target = None, scanType = None, ports = None, timeout = JsUndefined, domain = None,
      recordType = None, includeSubdomains = None, includeWhois = None, includeDNS = None\<rparr>"

definition empty_world :: world where
  "empty_world = \<lparr>runs = Map.empty, writes = [], spawned = []\<rparr>"

text \<open>A child that writes some output and is then ended by a signal.\<close>

definition killed_child :: os where
  "killed_child req = Started [StdoutData ''partial'', Close None]"

text \<open>A child that answers one line and exits with code 0.\<close>

definition answering_child :: os where
  "answering_child req = Started [StdoutData ''93.184.216.34'', Close (Some 0)]"

text \<open>A command that cannot be started: the runtime emits \<open>error\<close>.\<close>

definition missing_command :: os where
  "missing_command req = Started [ErrorEvent (Error ''spawn ENOENT'')]"

text \<open>
  A runtime that refuses the requests described by \<open>spawn_arguments_valid\<close> and starts a
  child that is ended by a signal for every other request.  (The text of the error is the
  runtime's; a short one stands for it.)
\<close>

definition refusing_runtime :: os where
  "refusing_runtime req =
     (if spawn_arguments_valid req then Started [StdoutData ''partial'', Close None]
      else Throws (Error ''spawn: invalid argument''))"

definition default_scan :: tool_args where
  "default_scan = no_args\<lparr>target := Some ''192.168.1.10'', scanType := Some ''ping''\<rparr>"

definition full_range_scan :: tool_args where
  "full_range_scan =
     no_args\<lparr>target := Some ''10.0.0.1'', scanType := Some ''syn'', ports := Some ''1-65535''\<rparr>"

definition public_scan :: tool_args where
  "public_scan = no_args\<lparr>target := Some ''8.8.8.8''\<rparr>"

text \<open>A scan of a private address whose caller supplies the timeout \<open>-1\<close>.\<close>

definition negative_timeout_scan :: tool_args where
  "negative_timeout_scan = default_scan\<lparr>timeout := JsInteger (- 1)\<rparr>"

text \<open>
  The rows the two routes write: the row inserted for an execute request, the row after
  the update of the execute route, and the row after the update of the approve route.
\<close>

definition created_run :: "string \<Rightarrow> nat \<Rightarrow> exec_body \<Rightarrow> ToolRun" where
  "created_run fresh_id now body =
     \<lparr>run_id = fresh_id, sessionId = body_sessionId body, messageId = None,
      toolName = body_toolName body, arguments = body_arguments body, result = None,
      status = (if requiresApproval body = Some True then Pending else Running),
      riskLevel = assessRiskLevel (body_toolName body) (body_arguments body),
      approvalRequired = (requiresApproval body = Some True), approvedBy = None,
      approvedAt = None, executedAt = None, completedAt = None, errorMessage = None,
      auditLog = None, createdAt = now\<rparr>"

definition finished_run :: "ToolRun \<Rightarrow> ToolResult \<Rightarrow> nat \<Rightarrow> ToolRun" where
  "finished_run row res now =
     row\<lparr>result := Some res, status := Completed, executedAt := Some now,
         completedAt := Some now\<rparr>"

definition approved_run :: "ToolRun \<Rightarrow> ToolResult \<Rightarrow> string \<Rightarrow> nat \<Rightarrow> ToolRun" where
  "approved_run row res userId now =
     row\<lparr>result := Some res, status := Completed, approvedBy := Some userId,
         approvedAt := Some now, executedAt := Some now, completedAt := Some now\<rparr>"

text \<open>The ledger after a write of \<open>row\<close> under key \<open>i\<close>.\<close>

definition written :: "string \<Rightarrow> ToolRun \<Rightarrow> world \<Rightarrow> world" where
  "written i row w = w\<lparr>runs := (runs w)(i \<mapsto> row), writes := writes w @ [row]\<rparr>"

text \<open>
  Sample identifiers (uuids in the form the database prints them in) and a sample
  conversion, which accepts exactly the texts of that form and rejects every other text
  with the message PostgreSQL gives, the rejected text in double quotes.  On the texts
  used below it agrees with the database.
\<close>

definition run_1 :: string where
  "run_1 = ''3f2b8c1e-5d4a-4e6f-9a7b-0c1d2e3f4a5b''"

definition run_2 :: string where
  "run_2 = ''7a6b5c4d-3e2f-4a1b-8c9d-0e1f2a3b4c5d''"

definition session_1 :: string where
  "session_1 = ''0b9e8d7c-6f5a-4b3c-9d2e-1f0a9b8c7d6e''"

definition alice :: string where
  "alice = ''1c2d3e4f-5a6b-4c7d-8e9f-0a1b2c3d4e5f''"

definition bob :: string where
  "bob = ''9f8e7d6c-5b4a-4f3e-8d2c-1b0a9f8e7d6c''"

definition is_hex :: "char \<Rightarrow> bool" where
  "is_hex c = (c \<in> set ''0123456789abcdef'')"

definition printed_uuid :: "string \<Rightarrow> bool" where
  "printed_uuid s =
     (let groups = split_on CHR ''-'' s
      in map length groups = [8, 4, 4, 4, 12] \<and> list_all (list_all is_hex) groups)"

definition uuid_error :: "string \<Rightarrow> js_error" where
  "uuid_error s =
     Error (''invalid input syntax for type uuid: '' @ [CHR 0x22] @ s @ [CHR 0x22])"

definition sample_uuid_in :: uuid_input where
  "sample_uuid_in s = (if printed_uuid s then Inr s else Inl (uuid_error s))"

text \<open>A scan of the public address \<open>8.8.8.8\<close>, filed for approval.\<close>

definition public_scan_for_approval :: exec_body where
  "public_scan_for_approval =
     \<lparr>body_toolName = ''nmap'', body_arguments = no_args\<lparr>target := Some ''8.8.8.8''\<rparr>,
      body_sessionId = session_1, requiresApproval = Some True\<rparr>"

text \<open>Sample requests and the ledger states they lead to.\<close>

definition dns_args :: tool_args where
  "dns_args = no_args\<lparr>domain := Some ''example.com''\<rparr>"

definition dns_request :: exec_body where
  "dns_request =
     \<lparr>body_toolName = ''dns_lookup'', body_arguments = dns_args, body_sessionId = session_1,
      requiresApproval = None\<rparr>"

definition dns_request_for_approval :: exec_body where
  "dns_request_for_approval = dns_request\<lparr>requiresApproval := Some True\<rparr>"

definition public_scan_request :: exec_body where
  "public_scan_request =
     \<lparr>body_toolName = ''nmap'', body_arguments = public_scan, body_sessionId = session_1,
      requiresApproval = None\<rparr>"

definition unknown_tool_request :: exec_body where
  "unknown_tool_request =
     \<lparr>body_toolName = ''metasploit'', body_arguments = no_args, body_sessionId = session_1,
      requiresApproval = None\<rparr>"

definition dig_request :: spawn_request where
  "dig_request =
     \<lparr>spawn_command = ''dig'', spawn_args = [''+short'', ''example.com'', ''A''],
      spawn_timeout = JsInteger 5000\<rparr>"

definition dns_data :: tool_data where
  "dns_data =
     DnsData \<lparr>dns_domain = Some ''example.com'', dns_recordType = ''A'',
              records = [''93.184.216.34'']\<rparr>"

definition dns_answer :: ToolResult where
  "dns_answer =
     \<lparr>success = True, data = Some dns_data, error = None, ToolResult.riskLevel = Low,
      ToolResult.auditLog =
        \<lparr>command = ''dns_lookup'', audit_log.arguments = dns_args,
         audit_log.result = AuditData dns_data\<rparr>\<rparr>"

definition failure_result :: "string \<Rightarrow> tool_args \<Rightarrow> string \<Rightarrow> ToolResult" where
  "failure_result tool args msg =
     \<lparr>success = False, data = None, error = Some msg, ToolResult.riskLevel = High,
      ToolResult.auditLog =
        \<lparr>command = tool, audit_log.arguments = args,
         audit_log.result = AuditError msg\<rparr>\<rparr>"

definition target_not_allowed :: string where
  "target_not_allowed = ''Target not allowed. Only local/private networks are permitted.''"

text \<open>The ledger after the sample DNS request ran without approval, and after the same
  request was filed for approval.\<close>

definition completed_world :: world where
  "completed_world =
     snd (execute_route answering_child run_1 1 (Some alice) dns_request empty_world)"

definition pending_world :: world where
  "pending_world =
     snd (execute_route answering_child run_1 1 (Some alice) dns_request_for_approval
            empty_world)"

definition pending_scan_world :: world where
  "pending_scan_world =
     snd (execute_route killed_child run_2 1 (Some alice) public_scan_for_approval
            empty_world)"

section \<open>Properties of the target policy guard\<close>

lemma lt10_cases:
  "(k::nat) < 10 \<Longrightarrow> k = 0 \<or> k = 1 \<or> k = 2 \<or> k = 3 \<or> k = 4 \<or> k = 5 \<or> k = 6 \<or> k = 7 \<or> k = 8 \<or> k = 9"
  by arith

lemma of_char_digit: "of_char (digit_char n) = (48 + n mod 10 :: nat)"
proof -
  have "n mod 10 < 10" by simp
  from lt10_cases [OF this] show ?thesis
    by (elim disjE) (simp_all add: digit_char_def)
qed

lemma digit_char_is:
  "digit_char n = c \<longleftrightarrow> of_char c = (48 + n mod 10 :: nat)"
  by (metis of_char_digit of_char_eq_iff)

lemma digit_char_is':
  "c = digit_char n \<longleftrightarrow> of_char c = (48 + n mod 10 :: nat)"
  by (metis of_char_digit of_char_eq_iff)

lemma octet_no_dot: "CHR ''.'' \<notin> set (octet_str a)"
  by (simp add: octet_str_def digit_char_is')

lemma prefix_until_dot:
  "CHR ''.'' \<notin> set x \<Longrightarrow> CHR ''.'' \<notin> set y \<Longrightarrow>
   prefix (x @ CHR ''.'' # r1) (y @ CHR ''.'' # r2) \<longleftrightarrow> x = y \<and> prefix r1 r2"
proof (induction x arbitrary: y)
  case Nil
  then show ?case by (cases y) auto
next
  case (Cons c x)
  then show ?case by (cases y) auto
qed

lemma octet_val_str:
  assumes "a < 1000"
  shows "octet_val (octet_str a) = a"
proof -
  consider "a < 10" | "10 \<le> a" "a < 100" | "100 \<le> a" by linarith
  then show ?thesis
  proof cases
    case 1
    then show ?thesis by (simp add: octet_val_def octet_str_def of_char_digit)
  next
    case 2
    then have "a div 10 < 10" by simp
    then have "a div 10 mod 10 = a div 10" by simp
    with 2 show ?thesis by (simp add: octet_val_def octet_str_def of_char_digit)
  next
    case 3
    have "a div 100 < 10" using assms by simp
    then have h: "a div 100 mod 10 = a div 100" by simp
    have "a div 10 div 10 = a div 100" by (simp add: div_mult2_eq)
    then have "a div 100 * 10 + a div 10 mod 10 = a div 10"
      by (metis div_mult_mod_eq)
    with 3 h show ?thesis by (simp add: octet_val_def octet_str_def of_char_digit)
  qed
qed

lemma octet_str_eq_iff:
  "a < 1000 \<Longrightarrow> b < 1000 \<Longrightarrow> octet_str a = octet_str b \<longleftrightarrow> a = b"
  by (metis octet_val_str)

lemma prefix_octet_dot:
  "prefix (octet_str n @ CHR ''.'' # r1) (octet_str a @ CHR ''.'' # r2)
     \<longleftrightarrow> octet_str n = octet_str a \<and> prefix r1 r2"
  by (rule prefix_until_dot) (rule octet_no_dot)+

lemma isTargetAllowed_unfold:
  "isTargetAllowed t \<longleftrightarrow>
     t = ''127.0.0.1'' \<or> t = ''localhost'' \<or> rx_test rx_192_168 t \<or> rx_test rx_10 t
     \<or> rx_test rx_172 t"
  by (auto simp: isTargetAllowed_def allowedTargets_def)

lemma rx_10_prefix: "rx_test rx_10 t \<longleftrightarrow> prefix ''10.'' t"
  by (simp add: rx_test_def rx_10_def)

lemma rx_192_prefix: "rx_test rx_192_168 t \<longleftrightarrow> prefix ''192.168.'' t"
  by (simp add: rx_test_def rx_192_168_def)

lemma octet_str_lits:
  "octet_str 10 = ''10''" "octet_str 192 = ''192''" "octet_str 168 = ''168''"
  "octet_str 172 = ''172''" "octet_str 127 = ''127''" "octet_str 0 = ''0''"
  "octet_str 1 = ''1''" "octet_str (Suc 0) = ''1''"
  by (simp_all add: octet_str_def digit_char_def)

lemma octet_str_16_31:
  "octet_str 16 = ''16''" "octet_str 17 = ''17''" "octet_str 18 = ''18''"
  "octet_str 19 = ''19''" "octet_str 20 = ''20''" "octet_str 21 = ''21''"
  "octet_str 22 = ''22''" "octet_str 23 = ''23''" "octet_str 24 = ''24''"
  "octet_str 25 = ''25''" "octet_str 26 = ''26''" "octet_str 27 = ''27''"
  "octet_str 28 = ''28''" "octet_str 29 = ''29''" "octet_str 30 = ''30''"
  "octet_str 31 = ''31''"
  by (simp_all add: octet_str_def digit_char_def)

lemma range_16_31:
  "(16 \<le> n \<and> n \<le> 31) \<longleftrightarrow>
     (n = 16 \<or> n = 17 \<or> n = 18 \<or> n = 19 \<or> n = 20 \<or> n = 21 \<or> n = 22 \<or> n = 23
      \<or> n = 24 \<or> n = 25 \<or> n = 26 \<or> n = 27 \<or> n = 28 \<or> n = 29 \<or> n = 30 \<or> (n::nat) = 31)"
  by arith

lemma char_range_6_9:
  "(54 \<le> (of_char y :: nat) \<and> (of_char y :: nat) \<le> 57) \<longleftrightarrow>
     (y = CHR ''6'' \<or> y = CHR ''7'' \<or> y = CHR ''8'' \<or> y = CHR ''9'')"
proof -
  have "(54 \<le> (of_char y :: nat) \<and> (of_char y :: nat) \<le> 57) \<longleftrightarrow>
     ((of_char y :: nat) = of_char CHR ''6'' \<or> (of_char y :: nat) = of_char CHR ''7''
      \<or> (of_char y :: nat) = of_char CHR ''8'' \<or> (of_char y :: nat) = of_char CHR ''9'')"
    by (simp del: of_char_eq_iff) arith
  then show ?thesis by (simp only: of_char_eq_iff)
qed

lemma char_range_0_9:
  "(48 \<le> (of_char y :: nat) \<and> (of_char y :: nat) \<le> 57) \<longleftrightarrow>
     (y = CHR ''0'' \<or> y = CHR ''1'' \<or> y = CHR ''2'' \<or> y = CHR ''3'' \<or> y = CHR ''4''
      \<or> y = CHR ''5'' \<or> y = CHR ''6'' \<or> y = CHR ''7'' \<or> y = CHR ''8'' \<or> y = CHR ''9'')"
proof -
  have "(48 \<le> (of_char y :: nat) \<and> (of_char y :: nat) \<le> 57) \<longleftrightarrow>
     ((of_char y :: nat) = of_char CHR ''0'' \<or> (of_char y :: nat) = of_char CHR ''1''
      \<or> (of_char y :: nat) = of_char CHR ''2'' \<or> (of_char y :: nat) = of_char CHR ''3''
      \<or> (of_char y :: nat) = of_char CHR ''4'' \<or> (of_char y :: nat) = of_char CHR ''5''
      \<or> (of_char y :: nat) = of_char CHR ''6'' \<or> (of_char y :: nat) = of_char CHR ''7''
      \<or> (of_char y :: nat) = of_char CHR ''8'' \<or> (of_char y :: nat) = of_char CHR ''9'')"
    by (simp del: of_char_eq_iff) arith
  then show ?thesis by (simp only: of_char_eq_iff)
qed

lemma prefix_Cons_iff: "prefix (c # cs) s \<longleftrightarrow> (\<exists>r. s = c # r \<and> prefix cs r)"
  by (cases s) auto

lemma rx_172_chars:
  "rx_test rx_172 t \<longleftrightarrow>
     (\<exists>x y r. t = ''172.'' @ x # y # CHR ''.'' # r \<and>
        (x = CHR ''1'' \<and> 54 \<le> (of_char y :: nat) \<and> (of_char y :: nat) \<le> 57
         \<or> x = CHR ''2'' \<and> 48 \<le> (of_char y :: nat) \<and> (of_char y :: nat) \<le> 57
         \<or> x = CHR ''3'' \<and> (y = CHR ''0'' \<or> y = CHR ''1'')))"
  unfolding rx_test_def rx_172_def
  apply (simp add: prefix_Cons_iff split: list.splits)
  apply (auto simp: prefix_Cons_iff split: list.splits if_splits)
  done

lemma range_prefix_172:
  "(\<exists>n. 16 \<le> n \<and> n \<le> 31 \<and> prefix (''172.'' @ octet_str n @ ''.'') t) \<longleftrightarrow> prefix_172_16_31 t"
proof -
  have "(\<exists>n. 16 \<le> n \<and> n \<le> 31 \<and> prefix (''172.'' @ octet_str n @ ''.'') t)
        \<longleftrightarrow> (\<exists>n. (16 \<le> n \<and> n \<le> 31) \<and> prefix (''172.'' @ octet_str n @ ''.'') t)"
    by simp
  also have "\<dots> \<longleftrightarrow> prefix_172_16_31 t"
    unfolding range_16_31 prefix_172_16_31_def
    by (simp add: ex_disj_distrib conj_disj_distribR octet_str_16_31)
  finally show ?thesis .
qed

lemma rx_172_prefixes: "rx_test rx_172 t \<longleftrightarrow> prefix_172_16_31 t"
  unfolding rx_172_chars char_range_6_9 char_range_0_9 prefix_172_16_31_def prefix_def
  by auto

lemma rx_172_prefix:
  "rx_test rx_172 t \<longleftrightarrow>
     (\<exists>n. 16 \<le> n \<and> n \<le> 31 \<and> prefix (''172.'' @ octet_str n @ ''.'') t)"
  by (simp only: rx_172_prefixes range_prefix_172)

lemma eq_until_dot:
  "CHR ''.'' \<notin> set x \<Longrightarrow> CHR ''.'' \<notin> set y \<Longrightarrow>
   x @ CHR ''.'' # r1 = y @ CHR ''.'' # r2 \<longleftrightarrow> x = y \<and> r1 = r2"
proof (induction x arbitrary: y)
  case Nil
  then show ?case by (cases y) auto
next
  case (Cons c x)
  then show ?case by (cases y) auto
qed

lemma lit_prefix1:
  assumes "n < 1000" "a < 1000"
  shows "prefix (octet_str n @ ''.'') (octet_str a @ ''.'' @ r) \<longleftrightarrow> n = a"
  using prefix_octet_dot [of n "[]" a r] octet_str_eq_iff [OF assms] by simp

lemma lit_prefix2:
  assumes "n < 1000" "a < 1000" "m < 1000" "b < 1000"
  shows "prefix (octet_str n @ ''.'' @ octet_str m @ ''.'')
           (octet_str a @ ''.'' @ octet_str b @ ''.'' @ r) \<longleftrightarrow> n = a \<and> m = b"
  using prefix_octet_dot [of n "octet_str m @ ''.''" a "octet_str b @ ''.'' @ r"]
    lit_prefix1 [OF assms(3,4), of r] octet_str_eq_iff [OF assms(1,2)] by simp

lemma lit_eq4:
  assumes "a < 1000" "b < 1000" "c < 1000" "d < 1000"
    and "a' < 1000" "b' < 1000" "c' < 1000" "d' < 1000"
  shows "ipv4_literal a b c d = ipv4_literal a' b' c' d' \<longleftrightarrow>
           a = a' \<and> b = b' \<and> c = c' \<and> d = d'"
proof -
  have nd: "\<And>k. CHR ''.'' \<notin> set (octet_str k)" by (rule octet_no_dot)
  have "ipv4_literal a b c d = ipv4_literal a' b' c' d' \<longleftrightarrow>
        octet_str a = octet_str a' \<and> octet_str b = octet_str b' \<and> octet_str c = octet_str c'
          \<and> octet_str d = octet_str d'"
    unfolding ipv4_literal_def by (simp add: eq_until_dot nd)
  then show ?thesis
    using assms by (simp add: octet_str_eq_iff)
qed

lemma allowed_literal:
  assumes "a < 256" "b < 256" "c < 256" "d < 256"
  shows "isTargetAllowed (ipv4_literal a b c d) \<longleftrightarrow>
     (a = 127 \<and> b = 0 \<and> c = 0 \<and> d = 1) \<or> a = 10 \<or> (a = 172 \<and> 16 \<le> b \<and> b \<le> 31)
      \<or> (a = 192 \<and> b = 168)"
proof -
  let ?t = "ipv4_literal a b c d"
  have lt: "a < 1000" "b < 1000" "c < 1000" "d < 1000" using assms by simp_all
  have "''127.0.0.1'' = ipv4_literal 127 0 0 1"
    by (simp add: ipv4_literal_def octet_str_lits)
  then have e1: "?t = ''127.0.0.1'' \<longleftrightarrow> a = 127 \<and> b = 0 \<and> c = 0 \<and> d = 1"
    using lit_eq4 [OF lt, of 127 0 0 1] by simp
  have "CHR ''.'' \<in> set ?t" by (simp add: ipv4_literal_def)
  moreover have "CHR ''.'' \<notin> set ''localhost''" by simp
  ultimately have e2: "?t \<noteq> ''localhost''" by metis
  have e3: "prefix ''192.168.'' ?t \<longleftrightarrow> a = 192 \<and> b = 168"
    using lit_prefix2 [of 192 a 168 b "octet_str c @ ''.'' @ octet_str d"] lt
    by (simp add: ipv4_literal_def octet_str_lits eq_commute)
  have e4: "prefix ''10.'' ?t \<longleftrightarrow> a = 10"
    using lit_prefix1 [of 10 a "octet_str b @ ''.'' @ octet_str c @ ''.'' @ octet_str d"] lt
    by (simp add: ipv4_literal_def octet_str_lits eq_commute)
  have e5: "(\<exists>n. 16 \<le> n \<and> n \<le> 31 \<and> prefix (''172.'' @ octet_str n @ ''.'') ?t)
       \<longleftrightarrow> a = 172 \<and> 16 \<le> b \<and> b \<le> 31"
  proof -
    have "prefix (''172.'' @ octet_str n @ ''.'') ?t \<longleftrightarrow> a = 172 \<and> n = b" if "n \<le> 31" for n
      using lit_prefix2 [of 172 a n b "octet_str c @ ''.'' @ octet_str d"] lt that
      by (simp add: ipv4_literal_def octet_str_lits eq_commute)
    then show ?thesis by auto
  qed
  show ?thesis
    unfolding isTargetAllowed_unfold rx_10_prefix rx_192_prefix rx_172_prefix e1 e3 e4 e5
    using e2 by blast
qed

lemma div16_is_1: "b div 16 = 1 \<longleftrightarrow> 16 \<le> b \<and> b \<le> (31::nat)"
proof -
  have e: "b = 16 * (b div 16) + b mod 16" by simp
  have r: "b mod 16 < 16" by simp
  consider "b div 16 = 0" | "b div 16 = 1" | "2 \<le> b div 16" by linarith
  then show ?thesis
  proof cases
    case 1 with e r show ?thesis by linarith
  next
    case 2 with e r show ?thesis by linarith
  next
    case 3 with e r show ?thesis by linarith
  qed
qed

lemma octets_16_q:
  assumes "q < (16::nat)"
  shows "a * 16 + q = 2753 \<longleftrightarrow> a = 172 \<and> q = 1"
proof -
  consider "a \<le> 171" | "a = 172" | "173 \<le> a" by linarith
  then show ?thesis
  proof cases
    case 1 with assms show ?thesis by linarith
  next
    case 2 with assms show ?thesis by linarith
  next
    case 3 with assms show ?thesis by linarith
  qed
qed

lemma octets_256_b:
  assumes "b < (256::nat)"
  shows "a * 256 + b = 49320 \<longleftrightarrow> a = 192 \<and> b = 168"
proof -
  consider "a \<le> 191" | "a = 192" | "193 \<le> a" by linarith
  then show ?thesis
  proof cases
    case 1 with assms show ?thesis by linarith
  next
    case 2 with assms show ?thesis by linarith
  next
    case 3 with assms show ?thesis by linarith
  qed
qed

lemma private_range_octets:
  assumes "a < 256" "b < 256" "c < 256" "d < 256"
  shows "in_private_range (ipv4_value a b c d) \<longleftrightarrow>
     a = 10 \<or> (a = 172 \<and> 16 \<le> b \<and> b \<le> 31) \<or> (a = 192 \<and> b = 168)"
proof -
  let ?v = "ipv4_value a b c d"
  have low: "c * 256 + d < 65536" using assms by linarith
  have v: "?v = (c * 256 + d) + (a * 256 + b) * 65536"
    by (simp add: ipv4_value_def algebra_simps)
  have v16: "?v div 65536 = a * 256 + b"
    unfolding v using low by simp
  have "?v div 16777216 = ?v div 65536 div 256" by (simp add: div_mult2_eq)
  then have v24: "?v div 16777216 = a" using assms by (simp add: v16)
  have "?v div 1048576 = ?v div 65536 div 16" by (simp add: div_mult2_eq)
  moreover have "a * 256 + b = b + (a * 16) * 16" by simp
  then have "(a * 256 + b) div 16 = b div 16 + a * 16" by (simp only: div_mult_self1)
  ultimately have v20: "?v div 1048576 = a * 16 + b div 16" by (simp add: v16)
  have q: "b div 16 < 16" using assms by simp
  have c1: "in_cidr ?v (ipv4_value 10 0 0 0) 8 \<longleftrightarrow> a = 10"
    by (simp add: in_cidr_def v24) (simp add: ipv4_value_def)
  have c2: "in_cidr ?v (ipv4_value 172 16 0 0) 12 \<longleftrightarrow> a = 172 \<and> 16 \<le> b \<and> b \<le> 31"
  proof -
    have "in_cidr ?v (ipv4_value 172 16 0 0) 12 \<longleftrightarrow> a * 16 + b div 16 = 2753"
      by (simp add: in_cidr_def v20) (simp add: ipv4_value_def)
    also have "\<dots> \<longleftrightarrow> a = 172 \<and> b div 16 = 1" by (rule octets_16_q [OF q])
    finally show ?thesis by (simp only: div16_is_1)
  qed
  have c3: "in_cidr ?v (ipv4_value 192 168 0 0) 16 \<longleftrightarrow> a = 192 \<and> b = 168"
  proof -
    have "in_cidr ?v (ipv4_value 192 168 0 0) 16 \<longleftrightarrow> a * 256 + b = 49320"
      by (simp add: in_cidr_def v16) (simp add: ipv4_value_def)
    also have "\<dots> \<longleftrightarrow> a = 192 \<and> b = 168" by (rule octets_256_b [OF assms(2)])
    finally show ?thesis .
  qed
  show ?thesis unfolding in_private_range_def c1 c2 c3 ..
qed

text \<open>
  What the guard accepts.  A target is accepted exactly when it is \<open>127.0.0.1\<close> or
  \<open>localhost\<close> or begins with \<open>192.168.\<close>, with \<open>10.\<close> or with \<open>172.N.\<close> for some \<open>N\<close> from 16
  to 31.  On IPv4 literals (four octets below 256 in decimal) that is exactly \<open>127.0.0.1\<close>
  and the addresses of \<open>10.0.0.0/8\<close>, \<open>172.16.0.0/12\<close> and \<open>192.168.0.0/16\<close>, so no public
  IPv4 literal is accepted.
\<close>

lemma isTargetAllowed_on_literals:
  "(isTargetAllowed t \<longleftrightarrow>
      t = ''127.0.0.1'' \<or> t = ''localhost'' \<or> prefix ''192.168.'' t \<or> prefix ''10.'' t
      \<or> (\<exists>n. 16 \<le> n \<and> n \<le> 31 \<and> prefix (''172.'' @ octet_str n @ ''.'') t))
   \<and> (a < 256 \<and> b < 256 \<and> c < 256 \<and> d < 256 \<longrightarrow>
        (isTargetAllowed (ipv4_literal a b c d) \<longleftrightarrow>
           (a = 127 \<and> b = 0 \<and> c = 0 \<and> d = 1) \<or> in_private_range (ipv4_value a b c d)))"
proof (intro conjI impI)
  show "isTargetAllowed t \<longleftrightarrow>
      t = ''127.0.0.1'' \<or> t = ''localhost'' \<or> prefix ''192.168.'' t \<or> prefix ''10.'' t
      \<or> (\<exists>n. 16 \<le> n \<and> n \<le> 31 \<and> prefix (''172.'' @ octet_str n @ ''.'') t)"
    by (simp only: isTargetAllowed_unfold rx_10_prefix rx_192_prefix rx_172_prefix)
next
  assume "a < 256 \<and> b < 256 \<and> c < 256 \<and> d < 256"
  then have lt: "a < 256" "b < 256" "c < 256" "d < 256" by simp_all
  show "isTargetAllowed (ipv4_literal a b c d) \<longleftrightarrow>
           (a = 127 \<and> b = 0 \<and> c = 0 \<and> d = 1) \<or> in_private_range (ipv4_value a b c d)"
    by (simp only: allowed_literal [OF lt] private_range_octets [OF lt])
qed

lemma isTargetAllowed_on_literals_example:
  "(8::nat) < 256 \<and> \<not> isTargetAllowed (ipv4_literal 8 8 8 8)
   \<and> (172::nat) < 256 \<and> (20::nat) < 256 \<and> isTargetAllowed (ipv4_literal 172 20 8 8)"
proof -
  have pub: "\<not> in_private_range (ipv4_value 8 8 8 8)"
    by (simp add: in_private_range_def in_cidr_def ipv4_value_def)
  have priv: "in_private_range (ipv4_value 172 20 8 8)"
    by (simp add: in_private_range_def in_cidr_def ipv4_value_def)
  from isTargetAllowed_on_literals [of "''localhost''" 8 8 8 8] pub
  have "\<not> isTargetAllowed (ipv4_literal 8 8 8 8)" by simp
  moreover from isTargetAllowed_on_literals [of "''localhost''" 172 20 8 8] priv
  have "isTargetAllowed (ipv4_literal 172 20 8 8)" by simp
  ultimately show ?thesis by simp
qed

text \<open>
  Claim C5 on targets that are not addresses.  The guard is meant to allow only
  \<open>localhost\<close> and the private address ranges, but its three patterns test the beginning
  of the text only: the host name \<open>10.evil.example.com\<close> and the network \<open>10.0.0.0/0\<close>,
  neither of which is \<open>127.0.0.1\<close>, \<open>localhost\<close> or an address of \<open>10.0.0.0/8\<close>,
  \<open>172.16.0.0/12\<close> or \<open>192.168.0.0/16\<close>, are allowed.
\<close>

theorem isTargetAllowed_accepts_prefixed_text:
  "isTargetAllowed ''10.evil.example.com'' \<and> isTargetAllowed ''10.0.0.0/0''"
  by (simp add: isTargetAllowed_unfold rx_10_prefix)

section \<open>Properties of the scan adapter's argument list\<close>

lemma buildNmapArgs_eq:
  "buildNmapArgs options =
     [''-T2'', ''--max-rate'', ''100'', ''--max-retries'', ''1'']
     @ (if scanType options = Some ''ping'' then [''-sn'']
        else if scanType options = Some ''tcp'' then [''-sT'']
        else if scanType options = Some ''syn'' then [''-sS'']
        else if scanType options = Some ''udp'' then [''-sU'']
        else if scanType options = Some ''service'' then [''-sV'']
        else [])
     @ (if ports options = None \<or> ports options = Some [] then [''--top-ports'', ''100'']
        else [''-p'', the (ports options)])
     @ [''-oX'', ''-'', js_string (target options)]"
  by (cases "ports options") (simp_all add: buildNmapArgs_def)

text \<open>
  Claim C8, as stated, fails: a caller who supplies \<open>ports = "1-65535"\<close> gets an argument
  list that scans the full port range, with no \<open>--top-ports\<close> cap.
\<close>

theorem buildNmapArgs_full_range_counterexample:
  "buildNmapArgs full_range_scan =
     [''-T2'', ''--max-rate'', ''100'', ''--max-retries'', ''1'', ''-sS'',
      ''-p'', ''1-65535'', ''-oX'', ''-'', ''10.0.0.1'']"
  by (simp add: buildNmapArgs_def full_range_scan_def no_args_def js_string_def)

text \<open>
  Claim C8, amended.  Whatever the caller supplies, the argument list begins with polite
  timing, the rate cap and the retry cap (\<open>-T2 --max-rate 100 --max-retries 1\<close>), followed
  by at most one scan-type flag.  The port budget is capped (\<open>--top-ports 100\<close>) only when
  the caller gives no \<open>ports\<close> argument (absent or empty); a non-empty \<open>ports\<close> argument is
  passed on unchanged after \<open>-p\<close>.
\<close>

theorem buildNmapArgs_budget:
  "take 5 (buildNmapArgs options) = [''-T2'', ''--max-rate'', ''100'', ''--max-retries'', ''1'']
   \<and> (\<exists>scan. length scan \<le> 1
          \<and> set scan \<subseteq> {''-sn'', ''-sT'', ''-sS'', ''-sU'', ''-sV''}
          \<and> (ports options = None \<or> ports options = Some [] \<longrightarrow>
                 drop 5 (buildNmapArgs options)
                   = scan @ [''--top-ports'', ''100'', ''-oX'', ''-'', js_string (target options)])
          \<and> (\<forall>p. ports options = Some p \<and> p \<noteq> [] \<longrightarrow>
                 drop 5 (buildNmapArgs options)
                   = scan @ [''-p'', p, ''-oX'', ''-'', js_string (target options)]))"
proof
  show "take 5 (buildNmapArgs options)
          = [''-T2'', ''--max-rate'', ''100'', ''--max-retries'', ''1'']"
    by (simp add: buildNmapArgs_eq)
next
  let ?scan = "if scanType options = Some ''ping'' then [''-sn'']
        else if scanType options = Some ''tcp'' then [''-sT'']
        else if scanType options = Some ''syn'' then [''-sS'']
        else if scanType options = Some ''udp'' then [''-sU'']
        else if scanType options = Some ''service'' then [''-sV'']
        else []"
  have d: "drop 5 (buildNmapArgs options) = ?scan
     @ (if ports options = None \<or> ports options = Some [] then [''--top-ports'', ''100'']
        else [''-p'', the (ports options)])
     @ [''-oX'', ''-'', js_string (target options)]"
    by (simp only: buildNmapArgs_eq) simp
  have l: "length ?scan \<le> 1" by simp
  have s: "set ?scan \<subseteq> {''-sn'', ''-sT'', ''-sS'', ''-sU'', ''-sV''}" by auto
  have a: "ports options = None \<or> ports options = Some [] \<longrightarrow>
       drop 5 (buildNmapArgs options)
         = ?scan @ [''--top-ports'', ''100'', ''-oX'', ''-'', js_string (target options)]"
    by (simp only: d) simp
  have b: "\<forall>p. ports options = Some p \<and> p \<noteq> [] \<longrightarrow>
       drop 5 (buildNmapArgs options)
         = ?scan @ [''-p'', p, ''-oX'', ''-'', js_string (target options)]"
    by (simp only: d) simp
  from l s a b show "\<exists>scan. length scan \<le> 1
          \<and> set scan \<subseteq> {''-sn'', ''-sT'', ''-sS'', ''-sU'', ''-sV''}
          \<and> (ports options = None \<or> ports options = Some [] \<longrightarrow>
                 drop 5 (buildNmapArgs options)
                   = scan @ [''--top-ports'', ''100'', ''-oX'', ''-'', js_string (target options)])
          \<and> (\<forall>p. ports options = Some p \<and> p \<noteq> [] \<longrightarrow>
                 drop 5 (buildNmapArgs options)
                   = scan @ [''-p'', p, ''-oX'', ''-'', js_string (target options)])"
    by blast
qed

theorem buildNmapArgs_budget_witness:
  "ports default_scan = None
   \<and> take 5 (buildNmapArgs default_scan)
        = [''-T2'', ''--max-rate'', ''100'', ''--max-retries'', ''1'']
   \<and> drop 5 (buildNmapArgs default_scan)
        = [''-sn'', ''--top-ports'', ''100'', ''-oX'', ''-'', ''192.168.1.10'']
   \<and> ports full_range_scan = Some ''1-65535''
   \<and> drop 5 (buildNmapArgs full_range_scan)
        = [''-sS'', ''-p'', ''1-65535'', ''-oX'', ''-'', ''10.0.0.1'']"
  using buildNmapArgs_budget [of default_scan] buildNmapArgs_budget [of full_range_scan]
  by (simp add: buildNmapArgs_def default_scan_def full_range_scan_def no_args_def
      js_string_def)

section \<open>Properties of the command runner\<close>

lemma settle_outcome:
  "outcome (settle p st) = (if outcome st = Unsettled then p else outcome st)"
  by (simp add: settle_def)

lemma on_event_sticky:
  "outcome st \<noteq> Unsettled \<Longrightarrow> outcome (on_event maxSize st ev) = outcome st"
  by (cases ev) (simp_all add: settle_def Let_def)

lemma foldl_on_event_sticky:
  "outcome st \<noteq> Unsettled \<Longrightarrow> outcome (foldl (on_event maxSize) st evs) = outcome st"
  by (induction evs arbitrary: st) (simp_all add: on_event_sticky)

lemma on_event_terminal:
  "is_terminal ev \<Longrightarrow> outcome (on_event maxSize st ev) \<noteq> Unsettled"
  by (cases ev) (simp_all add: settle_def)

lemma foldl_on_event_settles:
  "\<exists>ev\<in>set evs. is_terminal ev \<Longrightarrow> outcome (foldl (on_event maxSize) st evs) \<noteq> Unsettled"
proof (induction evs arbitrary: st)
  case Nil
  then show ?case by simp
next
  case (Cons ev evs)
  show ?case
  proof (cases "is_terminal ev")
    case True
    then have "outcome (on_event maxSize st ev) \<noteq> Unsettled" by (rule on_event_terminal)
    then show ?thesis by (simp add: foldl_on_event_sticky)
  next
    case False
    with Cons.prems have "\<exists>ev\<in>set evs. is_terminal ev" by simp
    then show ?thesis using Cons.IH by simp
  qed
qed

lemma on_event_rejected:
  "outcome (on_event maxSize st ev) = Rejected e \<Longrightarrow>
     outcome st = Rejected e \<or> e = Error ''Output size limit exceeded'' \<or> ev = ErrorEvent e"
  by (cases ev) (auto simp: settle_def Let_def split: if_splits)

lemma foldl_on_event_rejected:
  "outcome (foldl (on_event maxSize) st evs) = Rejected e \<Longrightarrow>
     outcome st = Rejected e \<or> e = Error ''Output size limit exceeded''
     \<or> ErrorEvent e \<in> set evs"
proof (induction evs arbitrary: st)
  case Nil
  then show ?case by simp
next
  case (Cons ev evs)
  from Cons.prems have "outcome (foldl (on_event maxSize) (on_event maxSize st ev) evs) = Rejected e"
    by simp
  from Cons.IH [OF this] on_event_rejected [of maxSize st ev e] show ?case by auto
qed

lemma foldl_on_event_data:
  "list_all is_data evs \<Longrightarrow> outcome st = Unsettled \<Longrightarrow>
   outputSize st + length (stdout_text evs) \<le> maxSize \<Longrightarrow>
   foldl (on_event maxSize) st evs
     = st\<lparr>acc_stdout := acc_stdout st @ stdout_text evs,
          acc_stderr := acc_stderr st @ stderr_text evs,
          outputSize := outputSize st + length (stdout_text evs)\<rparr>"
proof (induction evs arbitrary: st)
  case Nil
  then show ?case by simp
next
  case (Cons ev evs)
  show ?case
  proof (cases ev)
    case (StdoutData d)
    let ?st = "st\<lparr>outputSize := outputSize st + length d, acc_stdout := acc_stdout st @ d\<rparr>"
    from Cons.prems StdoutData have step: "on_event maxSize st ev = ?st"
      by (simp add: Let_def)
    have "foldl (on_event maxSize) ?st evs
      = ?st\<lparr>acc_stdout := acc_stdout ?st @ stdout_text evs,
          acc_stderr := acc_stderr ?st @ stderr_text evs,
          outputSize := outputSize ?st + length (stdout_text evs)\<rparr>"
      using Cons.prems StdoutData by (intro Cons.IH) simp_all
    with step StdoutData show ?thesis by simp
  next
    case (StderrData d)
    let ?st = "st\<lparr>acc_stderr := acc_stderr st @ d\<rparr>"
    have "foldl (on_event maxSize) ?st evs
      = ?st\<lparr>acc_stdout := acc_stdout ?st @ stdout_text evs,
          acc_stderr := acc_stderr ?st @ stderr_text evs,
          outputSize := outputSize ?st + length (stdout_text evs)\<rparr>"
      using Cons.prems StderrData by (intro Cons.IH) simp_all
    with StderrData show ?thesis by simp
  next
    case (Close code)
    with Cons.prems show ?thesis by simp
  next
    case (ErrorEvent e)
    with Cons.prems show ?thesis by simp
  qed
qed

lemma run_child_killed:
  assumes "list_all is_data evs" "length (stdout_text evs) \<le> maxSize"
  shows "outcome (run_child maxSize (evs @ [Close None]))
           = Resolved \<lparr>stdout = stdout_text evs, stderr = stderr_text evs, exitCode = 0\<rparr>"
proof -
  have "foldl (on_event maxSize) initial_state evs
      = initial_state\<lparr>acc_stdout := acc_stdout initial_state @ stdout_text evs,
          acc_stderr := acc_stderr initial_state @ stderr_text evs,
          outputSize := outputSize initial_state + length (stdout_text evs)\<rparr>"
    using assms by (intro foldl_on_event_data) (simp_all add: initial_state_def)
  then show ?thesis
    by (simp add: run_child_def initial_state_def settle_def)
qed

lemma executeCommand_thrown:
  "env \<lparr>spawn_command = cmd, spawn_args = args,
         spawn_timeout = js_or (opt_timeout options) (JsInteger 30000)\<rparr> = Throws e \<Longrightarrow>
   executeCommand env cmd args options log = (Rejected e, log)"
  by (simp add: executeCommand_def Let_def)

lemma executeCommand_started:
  "env \<lparr>spawn_command = cmd, spawn_args = args,
         spawn_timeout = js_or (opt_timeout options) (JsInteger 30000)\<rparr> = Started evs \<Longrightarrow>
   executeCommand env cmd args options log
     = (outcome (run_child (or_default (opt_maxOutputSize options) (1024 * 1024)) evs),
        log @ [\<lparr>spawn_command = cmd, spawn_args = args,
                 spawn_timeout = js_or (opt_timeout options) (JsInteger 30000)\<rparr>])"
  by (simp add: executeCommand_def Let_def)

lemma truthy_js_or: "truthy d \<Longrightarrow> truthy (js_or v d)"
  by (simp add: js_or_def)

text \<open>
  Claim C9, as stated, fails: when the child is ended by the timeout signal, the
  \<open>close\<close> handler resolves the call with the output captured so far and exit code 0.
\<close>

theorem executeCommand_timeout_counterexample:
  "fst (executeCommand killed_child ''nmap'' [''10.0.0.1'']
          \<lparr>opt_timeout = JsInteger 1000, opt_maxOutputSize = None\<rparr> [])
     = Resolved \<lparr>stdout = ''partial'', stderr = [], exitCode = 0\<rparr>"
  by (simp add: executeCommand_def killed_child_def run_child_def initial_state_def
      settle_def or_default_def Let_def)

text \<open>
  Claim C9, amended.  The command runner hands the timeout to the runtime: the request
  given to \<open>spawn\<close> carries \<open>options.timeout\<close>, or 30000 ms when that is absent or 0, so the
  runtime ends the child it has started when that time expires.  The call itself does
  not fail then: when the child, having written output within the size limit, is closed
  by the signal (exit code \<open>null\<close>), the call resolves with the output captured so far and
  exit code 0.  The call fails in three ways only, none of them a timeout error: with
  the error \<open>spawn\<close> itself throws (as it does for a timeout that is not an unsigned
  integer, or for a NUL character in an argument), in which case no process is started;
  with the output-limit error; and with the error of an \<open>error\<close> event of the child.
\<close>

theorem executeCommand_timeout:
  "(env \<lparr>spawn_command = cmd, spawn_args = args,
          spawn_timeout = js_or (opt_timeout options) (JsInteger 30000)\<rparr> = Throws e \<longrightarrow>
      executeCommand env cmd args options log = (Rejected e, log))
   \<and> (env \<lparr>spawn_command = cmd, spawn_args = args,
            spawn_timeout = js_or (opt_timeout options) (JsInteger 30000)\<rparr> = Started events \<longrightarrow>
        snd (executeCommand env cmd args options log)
          = log @ [\<lparr>spawn_command = cmd, spawn_args = args,
                    spawn_timeout = js_or (opt_timeout options) (JsInteger 30000)\<rparr>])
   \<and> truthy (js_or (opt_timeout options) (JsInteger 30000))
   \<and> (list_all is_data evs
        \<and> length (stdout_text evs) \<le> or_default (opt_maxOutputSize options) (1024 * 1024)
        \<and> env \<lparr>spawn_command = cmd, spawn_args = args,
                spawn_timeout = js_or (opt_timeout options) (JsInteger 30000)\<rparr>
            = Started (evs @ [Close None])
        \<longrightarrow> fst (executeCommand env cmd args options log)
             = Resolved \<lparr>stdout = stdout_text evs, stderr = stderr_text evs, exitCode = 0\<rparr>)
   \<and> (fst (executeCommand env cmd args options log) = Rejected e
        \<longrightarrow> env \<lparr>spawn_command = cmd, spawn_args = args,
                  spawn_timeout = js_or (opt_timeout options) (JsInteger 30000)\<rparr> = Throws e
            \<or> e = Error ''Output size limit exceeded''
            \<or> (\<exists>started.
                  env \<lparr>spawn_command = cmd, spawn_args = args,
                        spawn_timeout = js_or (opt_timeout options) (JsInteger 30000)\<rparr>
                    = Started started
                  \<and> ErrorEvent e \<in> set started))"
proof (intro conjI impI)
  assume "env \<lparr>spawn_command = cmd, spawn_args = args,
          spawn_timeout = js_or (opt_timeout options) (JsInteger 30000)\<rparr> = Throws e"
  then show "executeCommand env cmd args options log = (Rejected e, log)"
    by (rule executeCommand_thrown)
next
  assume "env \<lparr>spawn_command = cmd, spawn_args = args,
            spawn_timeout = js_or (opt_timeout options) (JsInteger 30000)\<rparr> = Started events"
  then show "snd (executeCommand env cmd args options log)
          = log @ [\<lparr>spawn_command = cmd, spawn_args = args,
                    spawn_timeout = js_or (opt_timeout options) (JsInteger 30000)\<rparr>]"
    by (simp add: executeCommand_started)
next
  show "truthy (js_or (opt_timeout options) (JsInteger 30000))"
    by (simp add: truthy_js_or)
next
  assume "list_all is_data evs
        \<and> length (stdout_text evs) \<le> or_default (opt_maxOutputSize options) (1024 * 1024)
        \<and> env \<lparr>spawn_command = cmd, spawn_args = args,
                spawn_timeout = js_or (opt_timeout options) (JsInteger 30000)\<rparr>
            = Started (evs @ [Close None])"
  then show "fst (executeCommand env cmd args options log)
             = Resolved \<lparr>stdout = stdout_text evs, stderr = stderr_text evs, exitCode = 0\<rparr>"
    by (simp add: executeCommand_started run_child_killed)
next
  let ?req = "\<lparr>spawn_command = cmd, spawn_args = args,
                spawn_timeout = js_or (opt_timeout options) (JsInteger 30000)\<rparr>"
  assume r: "fst (executeCommand env cmd args options log) = Rejected e"
  show "env ?req = Throws e
            \<or> e = Error ''Output size limit exceeded''
            \<or> (\<exists>started. env ?req = Started started \<and> ErrorEvent e \<in> set started)"
  proof (cases "env ?req")
    case (Throws e')
    with r show ?thesis by (simp add: executeCommand_thrown)
  next
    case (Started started)
    with r have "outcome (foldl (on_event (or_default (opt_maxOutputSize options) (1024 * 1024)))
                 initial_state started) = Rejected e"
      by (simp add: executeCommand_started run_child_def)
    from foldl_on_event_rejected [OF this] Started show ?thesis
      by (simp add: initial_state_def)
  qed
qed

theorem executeCommand_timeout_witness:
  "executeCommand killed_child ''nmap'' [''10.0.0.1'']
          \<lparr>opt_timeout = JsInteger 1000, opt_maxOutputSize = None\<rparr> []
       = (Resolved \<lparr>stdout = ''partial'', stderr = [], exitCode = 0\<rparr>,
          [\<lparr>spawn_command = ''nmap'', spawn_args = [''10.0.0.1''],
            spawn_timeout = JsInteger 1000\<rparr>])
   \<and> \<not> spawn_arguments_valid
          \<lparr>spawn_command = ''nmap'', spawn_args = [''10.0.0.1''],
           spawn_timeout = JsInteger (- 1)\<rparr>
   \<and> executeCommand refusing_runtime ''nmap'' [''10.0.0.1'']
          \<lparr>opt_timeout = JsInteger (- 1), opt_maxOutputSize = None\<rparr> []
       = (Rejected (Error ''spawn: invalid argument''), [])
   \<and> executeNmap refusing_runtime negative_timeout_scan []
       = (Rejected (Error ''spawn: invalid argument''), [])
   \<and> fst (executeCommand missing_command ''dig'' [''+short'']
            \<lparr>opt_timeout = JsUndefined, opt_maxOutputSize = None\<rparr> [])
       = Rejected (Error ''spawn ENOENT'')"
proof -
  let ?k = "\<lparr>opt_timeout = JsInteger 1000, opt_maxOutputSize = None\<rparr>"
  let ?n = "\<lparr>opt_timeout = JsInteger (- 1), opt_maxOutputSize = None\<rparr>"
  have a: "list_all is_data [StdoutData ''partial'']" by simp
  have b: "length (stdout_text [StdoutData ''partial''])
             \<le> or_default (opt_maxOutputSize ?k) (1024 * 1024)"
    by (simp add: or_default_def)
  have c: "killed_child \<lparr>spawn_command = ''nmap'', spawn_args = [''10.0.0.1''],
                          spawn_timeout = js_or (opt_timeout ?k) (JsInteger 30000)\<rparr>
       = Started ([StdoutData ''partial''] @ [Close None])"
    by (simp add: killed_child_def)
  have v: "\<not> spawn_arguments_valid
          \<lparr>spawn_command = ''nmap'', spawn_args = [''10.0.0.1''],
           spawn_timeout = JsInteger (- 1)\<rparr>"
    by (simp add: spawn_arguments_valid_def timeout_accepted_def)
  then have t: "refusing_runtime \<lparr>spawn_command = ''nmap'', spawn_args = [''10.0.0.1''],
                          spawn_timeout = js_or (opt_timeout ?n) (JsInteger 30000)\<rparr>
       = Throws (Error ''spawn: invalid argument'')"
    by (simp add: refusing_runtime_def js_or_def)
  have d: "fst (executeCommand missing_command ''dig'' [''+short'']
            \<lparr>opt_timeout = JsUndefined, opt_maxOutputSize = None\<rparr> [])
       = Rejected (Error ''spawn ENOENT'')"
    by (simp add: executeCommand_def missing_command_def run_child_def initial_state_def
        settle_def or_default_def Let_def)
  from executeCommand_timeout [of killed_child "''nmap''" "[''10.0.0.1'']" ?k
      "Error ''spawn ENOENT''" "[]" "[StdoutData ''partial'', Close None]"
      "[StdoutData ''partial'']"] a b c
  have k: "executeCommand killed_child ''nmap'' [''10.0.0.1''] ?k []
       = (Resolved \<lparr>stdout = ''partial'', stderr = [], exitCode = 0\<rparr>,
          [\<lparr>spawn_command = ''nmap'', spawn_args = [''10.0.0.1''],
            spawn_timeout = JsInteger 1000\<rparr>])"
    by (simp add: killed_child_def js_or_def prod_eq_iff)
  from executeCommand_timeout [of refusing_runtime "''nmap''" "[''10.0.0.1'']" ?n
      "Error ''spawn: invalid argument''" "[]" "[]" "[]"] t
  have "executeCommand refusing_runtime ''nmap'' [''10.0.0.1''] ?n []
       = (Rejected (Error ''spawn: invalid argument''), [])"
    by simp
  moreover have "executeNmap refusing_runtime negative_timeout_scan []
       = (Rejected (Error ''spawn: invalid argument''), [])"
  proof -
    have "isTargetAllowed (js_string (target negative_timeout_scan))"
      by (simp add: negative_timeout_scan_def default_scan_def no_args_def js_string_def
          isTargetAllowed_unfold rx_192_prefix)
    moreover have "\<not> spawn_arguments_valid
        \<lparr>spawn_command = ''nmap'', spawn_args = buildNmapArgs negative_timeout_scan,
         spawn_timeout = JsInteger (- 1)\<rparr>"
      by (simp add: spawn_arguments_valid_def timeout_accepted_def)
    ultimately show ?thesis
      by (simp add: executeNmap_def executeCommand_def refusing_runtime_def js_or_def
          negative_timeout_scan_def Let_def)
  qed
  ultimately show ?thesis using k v d by simp
qed

section \<open>Properties of \<open>executeTool\<close>\<close>

lemma executeCommand_settles:
  assumes "\<forall>req evs. env req = Started evs \<longrightarrow> (\<exists>ev\<in>set evs. is_terminal ev)"
  shows "fst (executeCommand env cmd args options log) \<noteq> Unsettled"
proof (cases "env \<lparr>spawn_command = cmd, spawn_args = args,
                   spawn_timeout = js_or (opt_timeout options) (JsInteger 30000)\<rparr>")
  case (Throws e)
  then show ?thesis by (simp add: executeCommand_thrown)
next
  case (Started evs)
  with assms have "\<exists>ev\<in>set evs. is_terminal ev" by blast
  with Started show ?thesis
    by (simp add: executeCommand_started run_child_def foldl_on_event_settles)
qed

lemma executeNmap_settles:
  assumes "\<forall>req evs. env req = Started evs \<longrightarrow> (\<exists>ev\<in>set evs. is_terminal ev)"
  shows "fst (executeNmap env options log) \<noteq> Unsettled"
proof (cases "isTargetAllowed (js_string (target options))")
  case False
  then show ?thesis by (simp add: executeNmap_def)
next
  case True
  obtain p log' where e: "executeCommand env ''nmap'' (buildNmapArgs options)
       \<lparr>opt_timeout = js_or (timeout options) (JsInteger 30000),
        opt_maxOutputSize = Some (1024 * 1024)\<rparr> log = (p, log')"
    by (cases "executeCommand env ''nmap'' (buildNmapArgs options)
       \<lparr>opt_timeout = js_or (timeout options) (JsInteger 30000),
        opt_maxOutputSize = Some (1024 * 1024)\<rparr> log")
  from executeCommand_settles [OF assms, of "''nmap''" "buildNmapArgs options"
      "\<lparr>opt_timeout = js_or (timeout options) (JsInteger 30000),
        opt_maxOutputSize = Some (1024 * 1024)\<rparr>" log] e
  have "p \<noteq> Unsettled" by simp
  with True e show ?thesis by (cases p) (simp_all add: executeNmap_def Let_def)
qed

lemma executeWhois_settles:
  assumes "\<forall>req evs. env req = Started evs \<longrightarrow> (\<exists>ev\<in>set evs. is_terminal ev)"
  shows "fst (executeWhois env d log) \<noteq> Unsettled"
proof -
  obtain p log' where e: "executeCommand env ''whois'' [js_string d]
             \<lparr>opt_timeout = JsInteger 10000, opt_maxOutputSize = None\<rparr> log = (p, log')"
    by (cases "executeCommand env ''whois'' [js_string d]
             \<lparr>opt_timeout = JsInteger 10000, opt_maxOutputSize = None\<rparr> log")
  from executeCommand_settles [OF assms, of "''whois''" "[js_string d]"
      "\<lparr>opt_timeout = JsInteger 10000, opt_maxOutputSize = None\<rparr>" log] e
  have "p \<noteq> Unsettled" by simp
  with e show ?thesis by (cases p) (simp_all add: executeWhois_def)
qed

lemma executeDNSLookup_settles:
  assumes "\<forall>req evs. env req = Started evs \<longrightarrow> (\<exists>ev\<in>set evs. is_terminal ev)"
  shows "fst (executeDNSLookup env d rt log) \<noteq> Unsettled"
proof -
  let ?rt = "case rt of None \<Rightarrow> ''A'' | Some r \<Rightarrow> r"
  obtain p log' where e: "executeCommand env ''dig'' [''+short'', js_string d, ?rt]
             \<lparr>opt_timeout = JsInteger 5000, opt_maxOutputSize = None\<rparr> log = (p, log')"
    by (cases "executeCommand env ''dig'' [''+short'', js_string d, ?rt]
             \<lparr>opt_timeout = JsInteger 5000, opt_maxOutputSize = None\<rparr> log")
  from executeCommand_settles [OF assms, of "''dig''" "[''+short'', js_string d, ?rt]"
      "\<lparr>opt_timeout = JsInteger 5000, opt_maxOutputSize = None\<rparr>" log] e
  have "p \<noteq> Unsettled" by simp
  with e show ?thesis by (cases p) (simp_all add: executeDNSLookup_def Let_def)
qed

lemma enumerate_loop_resolves:
  assumes "\<forall>req evs. env req = Started evs \<longrightarrow> (\<exists>ev\<in>set evs. is_terminal ev)"
  shows "\<exists>found. fst (enumerate_loop env d subs acc log) = Resolved found"
proof (induction subs arbitrary: acc log)
  case Nil
  then show ?case by simp
next
  case (Cons sub subs)
  obtain p log' where e: "executeDNSLookup env (Some (sub @ ''.'' @ js_string d)) (Some ''A'') log
      = (p, log')"
    by (cases "executeDNSLookup env (Some (sub @ ''.'' @ js_string d)) (Some ''A'') log")
  from executeDNSLookup_settles [OF assms, of "Some (sub @ ''.'' @ js_string d)" "Some ''A''" log] e
  have "p \<noteq> Unsettled" by simp
  with e Cons.IH show ?case by (cases p) (simp_all add: Let_def)
qed

lemma enumerateSubdomains_resolves:
  assumes "\<forall>req evs. env req = Started evs \<longrightarrow> (\<exists>ev\<in>set evs. is_terminal ev)"
  shows "\<exists>r. fst (enumerateSubdomains env d log) = Resolved r"
proof -
  obtain p log' where e: "enumerate_loop env d commonSubdomains [] log = (p, log')"
    by (cases "enumerate_loop env d commonSubdomains [] log")
  from enumerate_loop_resolves [OF assms, of d commonSubdomains "[]" log] e
  obtain found where "p = Resolved found" by auto
  with e show ?thesis by (simp add: enumerateSubdomains_def)
qed

lemma attempt_cases:
  "p \<noteq> Unsettled \<Longrightarrow> \<exists>v. attempt p = Resolved v"
  by (cases p) (simp_all add: attempt_def)


lemma try_part_resolves:
  "fst (call log) \<noteq> Unsettled \<Longrightarrow> \<exists>v log'. try_part call log = (Resolved v, log')"
  by (cases "call log"; cases "fst (call log)") (simp_all add: try_part_def attempt_def)

lemma await_Resolved: "await (Resolved v, log) rest = rest v log"
  by (simp add: await_def)

lemma await_store_resolves:
  "fst (call log) \<noteq> Unsettled \<Longrightarrow>
   \<exists>r log'. await (try_part call log) (\<lambda>v log'. (Resolved (f v), log')) = (Resolved r, log')"
proof -
  assume "fst (call log) \<noteq> Unsettled"
  with try_part_resolves [of call log]
  obtain v log' where "try_part call log = (Resolved v, log')"
    by blast
  then show ?thesis by (simp add: await_def)
qed

lemma executeDomainIntel_resolves:
  assumes "\<forall>req evs. env req = Started evs \<longrightarrow> (\<exists>ev\<in>set evs. is_terminal ev)"
  shows "\<exists>r. fst (executeDomainIntel env options log) = Resolved r"
proof -
  let ?r0 = "\<lparr>di_domain = domain options, di_dns = None, di_whois = None,
              di_subdomains = None\<rparr>"
  let ?s1 = "if includeDNS options \<noteq> Some False
            then await (try_part (executeDNSLookup env (domain options) (Some ''A'')) log)
                   (\<lambda>v log'. (Resolved (?r0\<lparr>di_dns := Some v\<rparr>), log'))
            else (Resolved ?r0, log)"
  have "\<exists>r log'. ?s1 = (Resolved r, log')"
    using await_store_resolves [of "executeDNSLookup env (domain options) (Some ''A'')" log
        "\<lambda>v. ?r0\<lparr>di_dns := Some v\<rparr>"]
      executeDNSLookup_settles [OF assms, of "domain options" "Some ''A''" log]
    by simp
  then obtain r1 log1 where s1: "?s1 = (Resolved r1, log1)" by blast
  let ?s2 = "if includeWhois options = Some True
                 then await (try_part (executeWhois env (domain options)) log1)
                        (\<lambda>v log'. (Resolved (r1\<lparr>di_whois := Some v\<rparr>), log'))
                 else (Resolved r1, log1)"
  have "\<exists>r log'. ?s2 = (Resolved r, log')"
    using await_store_resolves [of "executeWhois env (domain options)" log1
        "\<lambda>v. r1\<lparr>di_whois := Some v\<rparr>"]
      executeWhois_settles [OF assms, of "domain options" log1]
    by simp
  then obtain r2 log2 where s2: "?s2 = (Resolved r2, log2)" by blast
  let ?s3 = "if includeSubdomains options = Some True
                   then await (try_part (enumerateSubdomains env (domain options)) log2)
                          (\<lambda>v log'. (Resolved (r2\<lparr>di_subdomains := Some v\<rparr>), log'))
                   else (Resolved r2, log2)"
  have "fst (enumerateSubdomains env (domain options) log2) \<noteq> Unsettled"
    using enumerateSubdomains_resolves [OF assms, of "domain options" log2] by auto
  then have "\<exists>r log'. ?s3 = (Resolved r, log')"
    using await_store_resolves [of "enumerateSubdomains env (domain options)" log2
        "\<lambda>v. r2\<lparr>di_subdomains := Some v\<rparr>"]
    by simp
  then obtain r3 log3 where s3: "?s3 = (Resolved r3, log3)" by blast
  have "executeDomainIntel env options log = (Resolved r3, log3)"
    unfolding executeDomainIntel_def Let_def
    by (simp only: s1 await_Resolved s2 s3)
  then show ?thesis by simp
qed

lemma run_tool_settles:
  assumes "\<forall>req evs. env req = Started evs \<longrightarrow> (\<exists>ev\<in>set evs. is_terminal ev)"
  shows "fst (run_tool env tool args log) \<noteq> Unsettled"
proof -
  consider "tool = ''nmap''" | "tool \<noteq> ''nmap''" "tool = ''domain_intel''"
    | "tool \<noteq> ''nmap''" "tool \<noteq> ''domain_intel''" "tool = ''whois''"
    | "tool \<noteq> ''nmap''" "tool \<noteq> ''domain_intel''" "tool \<noteq> ''whois''" "tool = ''dns_lookup''"
    | "tool \<noteq> ''nmap''" "tool \<noteq> ''domain_intel''" "tool \<noteq> ''whois''" "tool \<noteq> ''dns_lookup''"
    by blast
  then show ?thesis
  proof cases
    case 1
    obtain p l where e: "executeNmap env args log = (p, l)"
      by (cases "executeNmap env args log")
    with executeNmap_settles [OF assms, of args log] have "p \<noteq> Unsettled" by simp
    with 1 e show ?thesis by (cases p) (simp_all add: run_tool_def)
  next
    case 2
    obtain p l where e: "executeDomainIntel env args log = (p, l)"
      by (cases "executeDomainIntel env args log")
    with executeDomainIntel_resolves [OF assms, of args log] have "p \<noteq> Unsettled" by auto
    with 2 e show ?thesis by (cases p) (simp_all add: run_tool_def)
  next
    case 3
    obtain p l where e: "executeWhois env (domain args) log = (p, l)"
      by (cases "executeWhois env (domain args) log")
    with executeWhois_settles [OF assms, of "domain args" log] have "p \<noteq> Unsettled" by simp
    with 3 e show ?thesis by (cases p) (simp_all add: run_tool_def)
  next
    case 4
    obtain p l where e: "executeDNSLookup env (domain args) (recordType args) log = (p, l)"
      by (cases "executeDNSLookup env (domain args) (recordType args) log")
    with executeDNSLookup_settles [OF assms, of "domain args" "recordType args" log]
    have "p \<noteq> Unsettled" by simp
    with 4 e show ?thesis by (cases p) (simp_all add: run_tool_def)
  next
    case 5
    then show ?thesis by (simp add: run_tool_def)
  qed
qed

lemma executeTool_cases:
  obtains (unsettled) l where "run_tool env tool args log = (Unsettled, l)"
      "executeTool env tool args log = (Unsettled, l)"
  | (caught) e l where "run_tool env tool args log = (Rejected e, l)"
      "executeTool env tool args log
         = (Resolved \<lparr>success = False, data = None, error = Some (message e),
                 ToolResult.riskLevel = High,
                 ToolResult.auditLog = \<lparr>command = tool, audit_log.arguments = args,
                             audit_log.result = AuditError (message e)\<rparr>\<rparr>, l)"
  | (returned) res risk l where "run_tool env tool args log = (Resolved (res, risk), l)"
      "executeTool env tool args log
         = (Resolved \<lparr>success = True, data = Some res, error = None,
                 ToolResult.riskLevel = risk,
                 ToolResult.auditLog = \<lparr>command = tool, audit_log.arguments = args,
                             audit_log.result = AuditData res\<rparr>\<rparr>, l)"
proof -
  obtain p l where e: "run_tool env tool args log = (p, l)"
    by (cases "run_tool env tool args log")
  show ?thesis
  proof (cases p)
    case Unsettled
    with e show ?thesis by (intro unsettled [of l]) (simp_all add: executeTool_def)
  next
    case (Rejected err)
    with e show ?thesis by (intro caught [of err l]) (simp_all add: executeTool_def)
  next
    case (Resolved v)
    obtain res risk where "v = (res, risk)" by (cases v)
    with e Resolved show ?thesis
      by (intro returned [of res risk l]) (simp_all add: executeTool_def)
  qed
qed

lemma executeTool_not_rejected: "fst (executeTool env tool args log) \<noteq> Rejected e"
  by (rule executeTool_cases [of env tool args log]) simp_all

lemma executeTool_caught:
  "fst (run_tool env tool args log) = Rejected e \<Longrightarrow>
   fst (executeTool env tool args log)
     = Resolved \<lparr>success = False, data = None, error = Some (message e),
                 ToolResult.riskLevel = High,
                 ToolResult.auditLog = \<lparr>command = tool, audit_log.arguments = args,
                             audit_log.result = AuditError (message e)\<rparr>\<rparr>"
  by (rule executeTool_cases [of env tool args log]) simp_all

lemma executeTool_resolves:
  assumes "\<forall>req evs. env req = Started evs \<longrightarrow> (\<exists>ev\<in>set evs. is_terminal ev)"
  shows "\<exists>res. fst (executeTool env tool args log) = Resolved res"
  using run_tool_settles [OF assms, of tool args log]
  by (cases rule: executeTool_cases [of env tool args log]) simp_all

lemma run_tool_unknown:
  "tool \<notin> {''nmap'', ''domain_intel'', ''whois'', ''dns_lookup''} \<Longrightarrow>
   run_tool env tool args log = (Rejected (Error (''Unknown tool: '' @ tool)), log)"
  by (simp add: run_tool_def)

text \<open>
  Claim C10.  \<open>executeTool\<close> never throws: its promise is never rejected, and it resolves
  with a \<open>ToolResult\<close> whenever every child process that is started closes or emits an
  error (a \<open>spawn\<close> that throws is a failure inside as well).
  Whenever the execution inside fails, the result has \<open>success = false\<close>, the error's
  message, risk level \<open>high\<close> whatever the tool, and an audit entry whose result records
  the error; an unknown tool name is such a failure.
\<close>

theorem executeTool_returns_result:
  "fst (executeTool env tool args log) \<noteq> Rejected e
   \<and> ((\<forall>req evs. env req = Started evs \<longrightarrow> (\<exists>ev\<in>set evs. is_terminal ev))
        \<longrightarrow> (\<exists>res. fst (executeTool env tool args log) = Resolved res))
   \<and> (fst (run_tool env tool args log) = Rejected e \<longrightarrow>
        fst (executeTool env tool args log)
          = Resolved \<lparr>success = False, data = None, error = Some (message e),
                      ToolResult.riskLevel = High,
                      ToolResult.auditLog =
                        \<lparr>command = tool, audit_log.arguments = args,
                         audit_log.result = AuditError (message e)\<rparr>\<rparr>)
   \<and> (tool \<notin> {''nmap'', ''domain_intel'', ''whois'', ''dns_lookup''} \<longrightarrow>
        fst (run_tool env tool args log) = Rejected (Error (''Unknown tool: '' @ tool)))"
proof (intro conjI impI)
  show "fst (executeTool env tool args log) \<noteq> Rejected e"
    by (rule executeTool_not_rejected)
next
  assume "\<forall>req evs. env req = Started evs \<longrightarrow> (\<exists>ev\<in>set evs. is_terminal ev)"
  then show "\<exists>res. fst (executeTool env tool args log) = Resolved res"
    by (rule executeTool_resolves)
next
  assume "fst (run_tool env tool args log) = Rejected e"
  then show "fst (executeTool env tool args log)
          = Resolved \<lparr>success = False, data = None, error = Some (message e),
                      ToolResult.riskLevel = High,
                      ToolResult.auditLog =
                        \<lparr>command = tool, audit_log.arguments = args,
                         audit_log.result = AuditError (message e)\<rparr>\<rparr>"
    by (rule executeTool_caught)
next
  assume "tool \<notin> {''nmap'', ''domain_intel'', ''whois'', ''dns_lookup''}"
  then show "fst (run_tool env tool args log) = Rejected (Error (''Unknown tool: '' @ tool))"
    by (simp add: run_tool_unknown)
qed

theorem executeTool_returns_result_witness:
  "fst (run_tool missing_command ''dns_lookup'' no_args []) = Rejected (Error ''spawn ENOENT'')
   \<and> assessRiskLevel ''dns_lookup'' no_args = Low
   \<and> fst (executeTool missing_command ''dns_lookup'' no_args [])
       = Resolved \<lparr>success = False, data = None, error = Some ''spawn ENOENT'',
                   ToolResult.riskLevel = High,
                   ToolResult.auditLog =
                     \<lparr>command = ''dns_lookup'', audit_log.arguments = no_args,
                      audit_log.result = AuditError ''spawn ENOENT''\<rparr>\<rparr>
   \<and> fst (executeTool missing_command ''metasploit'' no_args [])
       = Resolved \<lparr>success = False, data = None, error = Some ''Unknown tool: metasploit'',
                   ToolResult.riskLevel = High,
                   ToolResult.auditLog =
                     \<lparr>command = ''metasploit'', audit_log.arguments = no_args,
                      audit_log.result = AuditError ''Unknown tool: metasploit''\<rparr>\<rparr>"
proof -
  have a: "fst (run_tool missing_command ''dns_lookup'' no_args [])
             = Rejected (Error ''spawn ENOENT'')"
    by (simp add: run_tool_def executeDNSLookup_def executeCommand_def missing_command_def
        run_child_def initial_state_def settle_def or_default_def Let_def)
  have b: "assessRiskLevel ''dns_lookup'' no_args = Low"
    by (simp add: assessRiskLevel_def)
  have c: "''metasploit'' \<notin> {''nmap'', ''domain_intel'', ''whois'', ''dns_lookup''}"
    by simp
  from executeTool_returns_result
         [of missing_command "''dns_lookup''" no_args "[]" "Error ''spawn ENOENT''"] a
  have d: "fst (executeTool missing_command ''dns_lookup'' no_args [])
       = Resolved \<lparr>success = False, data = None, error = Some ''spawn ENOENT'',
                   ToolResult.riskLevel = High,
                   ToolResult.auditLog =
                     \<lparr>command = ''dns_lookup'', audit_log.arguments = no_args,
                      audit_log.result = AuditError ''spawn ENOENT''\<rparr>\<rparr>"
    by simp
  from executeTool_returns_result
         [of missing_command "''metasploit''" no_args "[]"
            "Error (''Unknown tool: '' @ ''metasploit'')"] c
  have "fst (executeTool missing_command ''metasploit'' no_args [])
       = Resolved \<lparr>success = False, data = None, error = Some ''Unknown tool: metasploit'',
                   ToolResult.riskLevel = High,
                   ToolResult.auditLog =
                     \<lparr>command = ''metasploit'', audit_log.arguments = no_args,
                      audit_log.result = AuditError ''Unknown tool: metasploit''\<rparr>\<rparr>"
    by simp
  with a b d show ?thesis by simp
qed

section \<open>Properties of the ledger and the routes\<close>

lemma apply_updates_finished:
  "apply_updates (no_updates\<lparr>set_status := Some Completed, set_result := Some res,
       set_executedAt := Some now, set_completedAt := Some now\<rparr>) row
     = finished_run row res now"
  by (simp add: apply_updates_def no_updates_def finished_run_def)

lemma apply_updates_approved:
  "apply_updates (no_updates\<lparr>set_status := Some Completed, set_result := Some res,
       set_approvedBy := Some u, set_approvedAt := Some now, set_executedAt := Some now,
       set_completedAt := Some now\<rparr>) row
     = approved_run row res u now"
  by (simp add: apply_updates_def no_updates_def approved_run_def)

lemma createToolRun_fresh:
  "runs w fid = None \<Longrightarrow>
   st = (if requiresApproval body = Some True then Pending else Running) \<Longrightarrow>
   ap = (requiresApproval body = Some True) \<Longrightarrow>
   createToolRun fid now (body_sessionId body) (body_toolName body) (body_arguments body)
       st ap (assessRiskLevel (body_toolName body) (body_arguments body)) w
     = (Resolved (created_run fid now body), written fid (created_run fid now body) w)"
  by (simp add: createToolRun_def created_run_def written_def Let_def)

lemma createToolRun_duplicate:
  "runs w fid = Some r \<Longrightarrow>
   createToolRun fid now s t a st ap risk w
     = (Rejected (Error ''duplicate key value violates unique constraint''), w)"
  by (simp add: createToolRun_def)

lemma updateToolRun_present:
  "runs w i = Some row \<Longrightarrow>
   updateToolRun i u w = (Some (apply_updates u row), written i (apply_updates u row) w)"
  by (simp add: updateToolRun_def written_def Let_def)

lemma written_simps:
  "runs (written i row w) = (runs w)(i \<mapsto> row)"
  "writes (written i row w) = writes w @ [row]"
  "spawned (written i row w) = spawned w"
  "written i row (w\<lparr>spawned := l\<rparr>) = (written i row w)\<lparr>spawned := l\<rparr>"
  by (simp_all add: written_def)

lemma execute_route_unauthenticated:
  "execute_route env fid now None body w
     = (Some (StatusMessage 401 ''User not authenticated''), w)"
  by (simp add: execute_route_def)

lemma execute_route_duplicate:
  "runs w fid = Some r \<Longrightarrow>
   execute_route env fid now (Some u) body w
     = (Some (StatusMessage 500 ''duplicate key value violates unique constraint''), w)"
  by (simp add: execute_route_def createToolRun_duplicate)

lemma execute_route_pending:
  "runs w fid = None \<Longrightarrow> requiresApproval body = Some True \<Longrightarrow>
   execute_route env fid now (Some u) body w
     = (Some (ExecuteAwaitsApproval (created_run fid now body)),
        written fid (created_run fid now body) w)"
  by (simp add: execute_route_def createToolRun_fresh)

lemma execute_route_unsettled:
  assumes "runs w fid = None" "requiresApproval body \<noteq> Some True"
    "executeTool env (body_toolName body) (body_arguments body) (spawned w) = (Unsettled, l)"
  shows "execute_route env fid now (Some u) body w
     = (None, (written fid (created_run fid now body) w)\<lparr>spawned := l\<rparr>)"
  using assms by (simp add: execute_route_def createToolRun_fresh written_simps)

lemma execute_route_resolved:
  assumes "runs w fid = None" "requiresApproval body \<noteq> Some True"
    "executeTool env (body_toolName body) (body_arguments body) (spawned w) = (Resolved res, l)"
  shows "execute_route env fid now (Some u) body w
     = (Some (ExecuteDone (created_run fid now body) res),
        written fid (finished_run (created_run fid now body) res now)
          ((written fid (created_run fid now body) w)\<lparr>spawned := l\<rparr>))"
proof -
  have "run_id (created_run fid now body) = fid" by (simp add: created_run_def)
  moreover have "runs ((written fid (created_run fid now body) w)\<lparr>spawned := l\<rparr>) fid
      = Some (created_run fid now body)"
    by (simp add: written_def)
  ultimately show ?thesis
    using assms
    by (simp add: execute_route_def createToolRun_fresh written_simps updateToolRun_present
        apply_updates_finished)
qed

lemma approve_route_unauthenticated:
  "approve_route env uuid_in now None i w
     = (Some (StatusMessage 401 ''User not authenticated''), w)"
  by (simp add: approve_route_def)

lemma approve_route_malformed:
  "uuid_in i = Inl e \<Longrightarrow>
   approve_route env uuid_in now (Some u) i w = (Some (StatusMessage 500 (message e)), w)"
  by (simp add: approve_route_def getToolRun_def)

lemma approve_route_missing:
  "uuid_in i = Inr k \<Longrightarrow> runs w k = None \<Longrightarrow>
   approve_route env uuid_in now (Some u) i w
     = (Some (StatusMessage 404 ''Tool run not found''), w)"
  by (simp add: approve_route_def getToolRun_def)

lemma approve_route_unsettled:
  assumes "uuid_in i = Inr k" "runs w k = Some row"
    "executeTool env (toolName row) (arguments row) (spawned w) = (Unsettled, l)"
  shows "approve_route env uuid_in now (Some u) i w = (None, w\<lparr>spawned := l\<rparr>)"
  using assms by (simp add: approve_route_def getToolRun_def)

lemma approve_route_resolved:
  assumes "uuid_in i = Inr k" "runs w k = Some row"
    "executeTool env (toolName row) (arguments row) (spawned w) = (Resolved res, l)"
  shows "approve_route env uuid_in now (Some u) i w
     = (Some (ApproveDone res), written k (approved_run row res u now) (w\<lparr>spawned := l\<rparr>))"
  using assms
  by (simp add: approve_route_def getToolRun_def id_key_def updateToolRun_present
      apply_updates_approved)

subsection \<open>The sample requests, evaluated\<close>

lemma sample_uuid_in_run_1: "sample_uuid_in run_1 = Inr run_1"
  by (simp add: sample_uuid_in_def printed_uuid_def run_1_def is_hex_def)

lemma sample_uuid_in_run_2: "sample_uuid_in run_2 = Inr run_2"
  by (simp add: sample_uuid_in_def printed_uuid_def run_2_def is_hex_def)

lemma sample_uuid_in_malformed: "sample_uuid_in ''r1'' = Inl (uuid_error ''r1'')"
  by (simp add: sample_uuid_in_def printed_uuid_def)

lemma executeTool_dns_sample:
  "executeTool answering_child ''dns_lookup'' dns_args log = (Resolved dns_answer, log @ [dig_request])"
  by (simp add: executeTool_def run_tool_def executeDNSLookup_def executeCommand_def
      answering_child_def run_child_def initial_state_def settle_def or_default_def
      js_or_def Let_def
      dns_args_def no_args_def js_string_def trim_def is_space_def dns_answer_def
      dns_data_def dig_request_def)

lemma executeNmap_disallowed:
  "\<not> isTargetAllowed (js_string (target args)) \<Longrightarrow>
   executeNmap env args log = (Rejected (Error target_not_allowed), log)"
  by (simp add: executeNmap_def target_not_allowed_def)

lemma executeTool_nmap_disallowed:
  "\<not> isTargetAllowed (js_string (target args)) \<Longrightarrow>
   executeTool env ''nmap'' args log
     = (Resolved (failure_result ''nmap'' args target_not_allowed), log)"
  by (simp add: executeTool_def run_tool_def executeNmap_disallowed failure_result_def)

lemma executeTool_unknown:
  "tool \<notin> {''nmap'', ''domain_intel'', ''whois'', ''dns_lookup''} \<Longrightarrow>
   executeTool env tool args log
     = (Resolved (failure_result tool args (''Unknown tool: '' @ tool)), log)"
  by (simp add: executeTool_def run_tool_unknown failure_result_def)

lemma public_target_disallowed: "\<not> isTargetAllowed (js_string (target public_scan))"
  by (simp add: public_scan_def no_args_def js_string_def isTargetAllowed_unfold
      rx_10_prefix rx_192_prefix rx_172_prefixes prefix_172_16_31_def)

lemma empty_world_simps:
  "runs empty_world i = None" "writes empty_world = []" "spawned empty_world = []"
  by (simp_all add: empty_world_def)

lemma completed_world_eq:
  "completed_world
     = written run_1 (finished_run (created_run run_1 1 dns_request) dns_answer 1)
         ((written run_1 (created_run run_1 1 dns_request) empty_world)
            \<lparr>spawned := [dig_request]\<rparr>)"
proof -
  have "executeTool answering_child (body_toolName dns_request) (body_arguments dns_request)
          (spawned empty_world) = (Resolved dns_answer, [dig_request])"
    using executeTool_dns_sample [of "[]"] by (simp add: dns_request_def empty_world_simps)
  moreover have "requiresApproval dns_request \<noteq> Some True" by (simp add: dns_request_def)
  ultimately show ?thesis
    unfolding completed_world_def
    by (simp add: execute_route_resolved empty_world_simps)
qed

lemma pending_world_eq:
  "pending_world
     = written run_1 (created_run run_1 1 dns_request_for_approval) empty_world"
proof -
  have "requiresApproval dns_request_for_approval = Some True"
    by (simp add: dns_request_for_approval_def)
  then show ?thesis
    unfolding pending_world_def by (simp add: execute_route_pending empty_world_simps)
qed

lemma pending_scan_world_eq:
  "pending_scan_world
     = written run_2 (created_run run_2 1 public_scan_for_approval) empty_world"
proof -
  have "requiresApproval public_scan_for_approval = Some True"
    by (simp add: public_scan_for_approval_def)
  then show ?thesis
    unfolding pending_scan_world_def
    by (simp add: execute_route_pending empty_world_simps)
qed

lemma status_history_written:
  "status_history i (written j row w)
     = status_history i w @ (if run_id row = i then [status row] else [])"
  by (simp add: status_history_def written_def)

lemma status_history_spawned: "status_history i (w\<lparr>spawned := l\<rparr>) = status_history i w"
  by (simp add: status_history_def)

lemma status_history_empty: "status_history i empty_world = []"
  by (simp add: status_history_def empty_world_def)

lemma created_run_simps:
  "run_id (created_run fid now body) = fid"
  "status (created_run fid now body)
     = (if requiresApproval body = Some True then Pending else Running)"
  "riskLevel (created_run fid now body)
     = assessRiskLevel (body_toolName body) (body_arguments body)"
  "approvalRequired (created_run fid now body) = (requiresApproval body = Some True)"
  "toolName (created_run fid now body) = body_toolName body"
  "arguments (created_run fid now body) = body_arguments body"
  "errorMessage (created_run fid now body) = None"
  "auditLog (created_run fid now body) = None"
  by (simp_all add: created_run_def)

lemma finished_run_simps:
  "run_id (finished_run row res now) = run_id row"
  "status (finished_run row res now) = Completed"
  "result (finished_run row res now) = Some res"
  "executedAt (finished_run row res now) = Some now"
  "completedAt (finished_run row res now) = Some now"
  "riskLevel (finished_run row res now) = riskLevel row"
  "approvalRequired (finished_run row res now) = approvalRequired row"
  "toolName (finished_run row res now) = toolName row"
  "arguments (finished_run row res now) = arguments row"
  "errorMessage (finished_run row res now) = errorMessage row"
  "auditLog (finished_run row res now) = auditLog row"
  by (simp_all add: finished_run_def)

lemma approved_run_simps:
  "run_id (approved_run row res u now) = run_id row"
  "status (approved_run row res u now) = Completed"
  "result (approved_run row res u now) = Some res"
  "approvedBy (approved_run row res u now) = Some u"
  "approvedAt (approved_run row res u now) = Some now"
  "executedAt (approved_run row res u now) = Some now"
  "completedAt (approved_run row res u now) = Some now"
  "riskLevel (approved_run row res u now) = riskLevel row"
  "approvalRequired (approved_run row res u now) = approvalRequired row"
  "toolName (approved_run row res u now) = toolName row"
  "arguments (approved_run row res u now) = arguments row"
  "errorMessage (approved_run row res u now) = errorMessage row"
  "auditLog (approved_run row res u now) = auditLog row"
  by (simp_all add: approved_run_def)

subsection \<open>What the routes do to the rows of the ledger\<close>

lemma executeTool_outcomes:
  obtains (unsettled) l where "executeTool env tool args log = (Unsettled, l)"
  | (resolved) res l where "executeTool env tool args log = (Resolved res, l)"
proof -
  obtain p l where e: "executeTool env tool args log = (p, l)"
    by (cases "executeTool env tool args log")
  with executeTool_not_rejected [of env tool args log] have "\<And>err. p \<noteq> Rejected err"
    by simp
  with e show ?thesis by (cases p) (auto intro: unsettled resolved)
qed

text \<open>A row that is in the ledger before an execute request is the same row after it.\<close>

lemma execute_route_keeps_rows:
  assumes "runs w i = Some row"
  shows "runs (snd (execute_route env fid now user body w)) i = Some row"
proof (cases user)
  case None
  with assms show ?thesis by (simp add: execute_route_unauthenticated)
next
  case (Some u)
  show ?thesis
  proof (cases "runs w fid")
    case (Some r)
    with assms \<open>user = Some u\<close> show ?thesis by (simp add: execute_route_duplicate)
  next
    case None
    with assms have ne: "fid \<noteq> i" by auto
    show ?thesis
    proof (cases "requiresApproval body = Some True")
      case True
      with None assms ne \<open>user = Some u\<close> show ?thesis
        by (simp add: execute_route_pending written_simps)
    next
      case False
      show ?thesis
      proof (cases rule: executeTool_outcomes
               [of env "body_toolName body" "body_arguments body" "spawned w"])
        case (unsettled l)
        with None False assms ne \<open>user = Some u\<close> show ?thesis
          by (simp add: execute_route_unsettled written_simps)
      next
        case (resolved res l)
        with None False assms ne \<open>user = Some u\<close> show ?thesis
          by (simp add: execute_route_resolved written_simps)
      qed
    qed
  qed
qed

text \<open>The row an execute request creates keeps the columns it was inserted with.\<close>

lemma execute_route_created_row:
  assumes "runs w fid = None"
  shows "\<exists>row. runs (snd (execute_route env fid now (Some u) body w)) fid = Some row
           \<and> riskLevel row = assessRiskLevel (body_toolName body) (body_arguments body)
           \<and> approvalRequired row = (requiresApproval body = Some True)"
proof (cases "requiresApproval body = Some True")
  case True
  with assms show ?thesis
    by (simp add: execute_route_pending written_simps created_run_simps)
next
  case False
  show ?thesis
  proof (cases rule: executeTool_outcomes
           [of env "body_toolName body" "body_arguments body" "spawned w"])
    case (unsettled l)
    with assms False show ?thesis
      by (simp add: execute_route_unsettled written_simps created_run_simps)
  next
    case (resolved res l)
    with assms False show ?thesis
      by (simp add: execute_route_resolved written_simps created_run_simps
          finished_run_simps)
  qed
qed

text \<open>An approve request changes neither the risk level nor the approval flag of any row.\<close>

lemma approve_route_keeps_columns:
  assumes "runs w i = Some row"
  shows "\<exists>row'. runs (snd (approve_route env uuid_in now user j w)) i = Some row'
           \<and> riskLevel row' = riskLevel row
           \<and> approvalRequired row' = approvalRequired row"
proof (cases user)
  case None
  with assms show ?thesis by (simp add: approve_route_unauthenticated)
next
  case (Some u)
  show ?thesis
  proof (cases "uuid_in j")
    case (Inl e)
    with assms \<open>user = Some u\<close> show ?thesis by (simp add: approve_route_malformed)
  next
    case (Inr k)
    show ?thesis
    proof (cases "runs w k")
      case None
      with Inr assms \<open>user = Some u\<close> show ?thesis by (simp add: approve_route_missing)
    next
      case (Some target_row)
      show ?thesis
      proof (cases rule: executeTool_outcomes
               [of env "toolName target_row" "arguments target_row" "spawned w"])
        case (unsettled l)
        with Inr Some assms \<open>user = Some u\<close> show ?thesis
          by (simp add: approve_route_unsettled)
      next
        case (resolved res l)
        with Inr Some assms \<open>user = Some u\<close> show ?thesis
          by (cases "i = k") (simp_all add: approve_route_resolved written_simps
              approved_run_simps)
      qed
    qed
  qed
qed

section \<open>The approval gate\<close>

text \<open>
  Claim C1, as stated, fails: approving the run \<open>run_1\<close>, which is already \<open>completed\<close>,
  succeeds; the tool is run a second time and the row is overwritten with the new
  approver.
\<close>

theorem approve_completed_counterexample:
  "map_option status (runs completed_world run_1) = Some Completed
   \<and> spawned completed_world = [dig_request]
   \<and> fst (approve_route answering_child sample_uuid_in 2 (Some bob) run_1 completed_world)
       = Some (ApproveDone dns_answer)
   \<and> spawned (snd (approve_route answering_child sample_uuid_in 2 (Some bob) run_1
                     completed_world))
       = [dig_request, dig_request]
   \<and> map_option approvedBy
        (runs (snd (approve_route answering_child sample_uuid_in 2 (Some bob) run_1
                      completed_world)) run_1)
       = Some (Some bob)
   \<and> map_option approvedBy (runs completed_world run_1) = Some None"
proof -
  let ?row = "finished_run (created_run run_1 1 dns_request) dns_answer 1"
  have r: "runs completed_world run_1 = Some ?row"
    by (simp add: completed_world_eq written_simps)
  have s: "spawned completed_world = [dig_request]"
    by (simp add: completed_world_eq written_simps)
  have "executeTool answering_child (toolName ?row) (arguments ?row) (spawned completed_world)
          = (Resolved dns_answer, [dig_request, dig_request])"
    using executeTool_dns_sample [of "[dig_request]"]
    by (simp add: s finished_run_simps created_run_simps dns_request_def)
  from approve_route_resolved [of sample_uuid_in run_1 run_1 completed_world ?row
      answering_child dns_answer "[dig_request, dig_request]" 2 bob,
      OF sample_uuid_in_run_1 r this]
  have a: "approve_route answering_child sample_uuid_in 2 (Some bob) run_1 completed_world
     = (Some (ApproveDone dns_answer),
        written run_1 (approved_run ?row dns_answer bob 2)
          (completed_world\<lparr>spawned := [dig_request, dig_request]\<rparr>))" .
  show ?thesis
    by (simp add: a r s written_simps approved_run_simps finished_run_simps)
       (simp add: finished_run_def created_run_def)
qed

text \<open>
  Claim C1, amended.  For every call to the tool-approval operation by an authenticated
  user: if the given id is not the text of a uuid, the lookup throws and the call fails
  with status 500, the state unchanged.  If the id is the text of a uuid and no ToolRun
  with that id exists, the call fails with NotFound (status 404) and the state is
  unchanged.  If a ToolRun with that id exists, whatever its status, the tool is executed
  with the run's stored name and arguments, and once it returns the run is recorded as
  completed with the new result, the approver and the timestamps, and the call succeeds;
  there is no conflict error.
\<close>

theorem approve_route_outcome:
  "(uuid_in i = Inl e \<longrightarrow>
      approve_route env uuid_in now (Some u) i w = (Some (StatusMessage 500 (message e)), w))
   \<and> (uuid_in i = Inr k \<and> runs w k = None \<longrightarrow>
        approve_route env uuid_in now (Some u) i w
          = (Some (StatusMessage 404 ''Tool run not found''), w))
   \<and> (uuid_in i = Inr k \<and> runs w k = Some row
        \<and> executeTool env (toolName row) (arguments row) (spawned w) = (Resolved res, l) \<longrightarrow>
        approve_route env uuid_in now (Some u) i w
          = (Some (ApproveDone res),
             written k (approved_run row res u now) (w\<lparr>spawned := l\<rparr>)))"
proof (intro conjI impI)
  assume "uuid_in i = Inl e"
  then show "approve_route env uuid_in now (Some u) i w
      = (Some (StatusMessage 500 (message e)), w)"
    by (rule approve_route_malformed)
next
  assume "uuid_in i = Inr k \<and> runs w k = None"
  then have "uuid_in i = Inr k" and "runs w k = None" by simp_all
  then show "approve_route env uuid_in now (Some u) i w
      = (Some (StatusMessage 404 ''Tool run not found''), w)"
    by (rule approve_route_missing)
next
  assume "uuid_in i = Inr k \<and> runs w k = Some row
        \<and> executeTool env (toolName row) (arguments row) (spawned w) = (Resolved res, l)"
  then have "uuid_in i = Inr k" and "runs w k = Some row"
    and "executeTool env (toolName row) (arguments row) (spawned w) = (Resolved res, l)"
    by simp_all
  then show "approve_route env uuid_in now (Some u) i w
        = (Some (ApproveDone res),
           written k (approved_run row res u now) (w\<lparr>spawned := l\<rparr>))"
    by (rule approve_route_resolved)
qed

theorem approve_route_outcome_witness:
  "sample_uuid_in ''r1'' = Inl (uuid_error ''r1'')
   \<and> approve_route answering_child sample_uuid_in 2 (Some bob) ''r1'' pending_world
       = (Some (StatusMessage 500 (message (uuid_error ''r1''))), pending_world)
   \<and> sample_uuid_in run_1 = Inr run_1 \<and> runs empty_world run_1 = None
   \<and> approve_route answering_child sample_uuid_in 2 (Some bob) run_1 empty_world
       = (Some (StatusMessage 404 ''Tool run not found''), empty_world)
   \<and> runs pending_world run_1 = Some (created_run run_1 1 dns_request_for_approval)
   \<and> approve_route answering_child sample_uuid_in 2 (Some bob) run_1 pending_world
       = (Some (ApproveDone dns_answer),
          written run_1
            (approved_run (created_run run_1 1 dns_request_for_approval) dns_answer bob 2)
            (pending_world\<lparr>spawned := [dig_request]\<rparr>))"
proof -
  let ?row = "created_run run_1 1 dns_request_for_approval"
  let ?err = "uuid_error ''r1''"
  have n: "runs empty_world run_1 = None" by (simp add: empty_world_simps)
  have r: "runs pending_world run_1 = Some ?row"
    by (simp add: pending_world_eq written_simps)
  have e: "executeTool answering_child (toolName ?row) (arguments ?row) (spawned pending_world)
          = (Resolved dns_answer, [dig_request])"
    using executeTool_dns_sample [of "[]"]
    by (simp add: pending_world_eq written_simps empty_world_simps created_run_simps
        dns_request_for_approval_def dns_request_def)
  from approve_route_outcome [of sample_uuid_in "''r1''" ?err answering_child 2 bob
      pending_world] sample_uuid_in_malformed
  have m: "approve_route answering_child sample_uuid_in 2 (Some bob) ''r1'' pending_world
       = (Some (StatusMessage 500 (message (uuid_error ''r1''))), pending_world)"
    by simp
  from approve_route_outcome [of sample_uuid_in run_1 ?err answering_child 2 bob
      empty_world run_1] sample_uuid_in_run_1 n
  have a: "approve_route answering_child sample_uuid_in 2 (Some bob) run_1 empty_world
       = (Some (StatusMessage 404 ''Tool run not found''), empty_world)"
    by simp
  from approve_route_outcome [of sample_uuid_in run_1 ?err answering_child 2 bob
      pending_world run_1 ?row dns_answer "[dig_request]"] sample_uuid_in_run_1 r e
  have "approve_route answering_child sample_uuid_in 2 (Some bob) run_1 pending_world
       = (Some (ApproveDone dns_answer),
          written run_1 (approved_run ?row dns_answer bob 2)
            (pending_world\<lparr>spawned := [dig_request]\<rparr>))"
    by simp
  with n a r m sample_uuid_in_malformed sample_uuid_in_run_1 show ?thesis by simp
qed




section \<open>Execution outcomes in the ledger\<close>

text \<open>
  Claim C3, as stated, fails: the unknown tool \<open>metasploit\<close> fails inside \<open>executeTool\<close>
  (\<open>success = false\<close>), and the run is recorded with status \<open>completed\<close> and no error
  message of its own.
\<close>

theorem failed_run_completed_counterexample:
  "fst (execute_route killed_child run_1 1 (Some alice) unknown_tool_request empty_world)
     = Some (ExecuteDone (created_run run_1 1 unknown_tool_request)
               (failure_result ''metasploit'' no_args ''Unknown tool: metasploit''))
   \<and> success (failure_result ''metasploit'' no_args ''Unknown tool: metasploit'') = False
   \<and> map_option status
       (runs (snd (execute_route killed_child run_1 1 (Some alice) unknown_tool_request
                     empty_world)) run_1) = Some Completed
   \<and> map_option errorMessage
       (runs (snd (execute_route killed_child run_1 1 (Some alice) unknown_tool_request
                     empty_world)) run_1) = Some None"
proof -
  have "''metasploit'' \<notin> {''nmap'', ''domain_intel'', ''whois'', ''dns_lookup''}" by simp
  from executeTool_unknown [OF this, of killed_child no_args "[]"]
  have "executeTool killed_child (body_toolName unknown_tool_request)
          (body_arguments unknown_tool_request) (spawned empty_world)
        = (Resolved (failure_result ''metasploit'' no_args ''Unknown tool: metasploit''), [])"
    by (simp add: unknown_tool_request_def empty_world_simps)
  moreover have "requiresApproval unknown_tool_request \<noteq> Some True"
    by (simp add: unknown_tool_request_def)
  ultimately show ?thesis
    by (simp add: execute_route_resolved empty_world_simps written_simps finished_run_simps
        created_run_simps)
       (simp add: failure_result_def)
qed

text \<open>
  Claim C3, amended.  For every executed ToolRun, once \<open>executeTool\<close> returns its
  ToolResult, successful or not, the run is moved to status \<open>completed\<close> with \<open>result\<close>
  holding that ToolResult (which carries the success flag, the error message and the
  audit entry), and \<open>executedAt\<close> and \<open>completedAt\<close> are set.  The columns \<open>errorMessage\<close>
  and \<open>auditLog\<close> of the run are left as they were, and no statement of either route
  writes the status \<open>failed\<close>.
\<close>

theorem routes_record_completed:
  "(runs w fid = None \<and> requiresApproval body \<noteq> Some True
      \<and> executeTool env (body_toolName body) (body_arguments body) (spawned w)
           = (Resolved res, l) \<longrightarrow>
      (\<exists>row. runs (snd (execute_route env fid now (Some u) body w)) fid = Some row
          \<and> status row = Completed \<and> result row = Some res
          \<and> executedAt row = Some now \<and> completedAt row = Some now
          \<and> errorMessage row = None \<and> auditLog row = None))
   \<and> (uuid_in i = Inr k \<and> runs w k = Some old
        \<and> executeTool env (toolName old) (arguments old) (spawned w) = (Resolved res, l) \<longrightarrow>
      (\<exists>row. runs (snd (approve_route env uuid_in now (Some u) i w)) k = Some row
          \<and> status row = Completed \<and> result row = Some res
          \<and> executedAt row = Some now \<and> completedAt row = Some now
          \<and> errorMessage row = errorMessage old \<and> auditLog row = auditLog old))
   \<and> (status_history h (snd (execute_route env fid now user body w))
        = status_history h w @ added
        \<longrightarrow> Failed \<notin> set added)
   \<and> (status_history h (snd (approve_route env uuid_in now user i w))
        = status_history h w @ added
        \<longrightarrow> Failed \<notin> set added)"
proof (intro conjI impI)
  assume "runs w fid = None \<and> requiresApproval body \<noteq> Some True
      \<and> executeTool env (body_toolName body) (body_arguments body) (spawned w)
           = (Resolved res, l)"
  then show "\<exists>row. runs (snd (execute_route env fid now (Some u) body w)) fid = Some row
          \<and> status row = Completed \<and> result row = Some res
          \<and> executedAt row = Some now \<and> completedAt row = Some now
          \<and> errorMessage row = None \<and> auditLog row = None"
    by (simp add: execute_route_resolved written_simps finished_run_simps created_run_simps)
next
  assume "uuid_in i = Inr k \<and> runs w k = Some old
        \<and> executeTool env (toolName old) (arguments old) (spawned w) = (Resolved res, l)"
  then show "\<exists>row. runs (snd (approve_route env uuid_in now (Some u) i w)) k = Some row
          \<and> status row = Completed \<and> result row = Some res
          \<and> executedAt row = Some now \<and> completedAt row = Some now
          \<and> errorMessage row = errorMessage old \<and> auditLog row = auditLog old"
    by (simp add: approve_route_resolved written_simps approved_run_simps)
next
  assume h: "status_history h (snd (execute_route env fid now user body w))
        = status_history h w @ added"
  have "\<exists>new. status_history h (snd (execute_route env fid now user body w))
                 = status_history h w @ new \<and> Failed \<notin> set new"
  proof (cases user)
    case None
    then show ?thesis by (simp add: execute_route_unauthenticated)
  next
    case (Some u')
    show ?thesis
    proof (cases "runs w fid")
      case (Some r)
      with \<open>user = Some u'\<close> show ?thesis by (simp add: execute_route_duplicate)
    next
      case None
      show ?thesis
      proof (cases "requiresApproval body = Some True")
        case True
        with None \<open>user = Some u'\<close> show ?thesis
          by (simp add: execute_route_pending status_history_written created_run_simps)
      next
        case False
        show ?thesis
        proof (cases rule: executeTool_outcomes
                 [of env "body_toolName body" "body_arguments body" "spawned w"])
          case (unsettled l')
          with None False \<open>user = Some u'\<close> show ?thesis
            by (simp add: execute_route_unsettled status_history_written
                status_history_spawned created_run_simps)
        next
          case (resolved res' l')
          with None False \<open>user = Some u'\<close> show ?thesis
            by (simp add: execute_route_resolved status_history_written
                status_history_spawned created_run_simps finished_run_simps)
        qed
      qed
    qed
  qed
  with h show "Failed \<notin> set added" by auto
next
  assume h: "status_history h (snd (approve_route env uuid_in now user i w))
        = status_history h w @ added"
  have "\<exists>new. status_history h (snd (approve_route env uuid_in now user i w))
                 = status_history h w @ new \<and> Failed \<notin> set new"
  proof (cases user)
    case None
    then show ?thesis by (simp add: approve_route_unauthenticated)
  next
    case (Some u')
    show ?thesis
    proof (cases "uuid_in i")
      case (Inl err)
      with \<open>user = Some u'\<close> show ?thesis by (simp add: approve_route_malformed)
    next
      case (Inr k')
      show ?thesis
      proof (cases "runs w k'")
        case None
        with Inr \<open>user = Some u'\<close> show ?thesis by (simp add: approve_route_missing)
      next
        case (Some r)
        show ?thesis
        proof (cases rule: executeTool_outcomes
                 [of env "toolName r" "arguments r" "spawned w"])
          case (unsettled l')
          with Inr Some \<open>user = Some u'\<close> show ?thesis
            by (simp add: approve_route_unsettled status_history_spawned)
        next
          case (resolved res' l')
          with Inr Some \<open>user = Some u'\<close> show ?thesis
            by (simp add: approve_route_resolved status_history_written
                status_history_spawned approved_run_simps)
        qed
      qed
    qed
  qed
  with h show "Failed \<notin> set added" by auto
qed

theorem routes_record_completed_witness:
  "runs empty_world run_1 = None \<and> requiresApproval unknown_tool_request \<noteq> Some True
   \<and> executeTool killed_child (body_toolName unknown_tool_request)
          (body_arguments unknown_tool_request) (spawned empty_world)
        = (Resolved (failure_result ''metasploit'' no_args ''Unknown tool: metasploit''), [])
   \<and> map_option status
       (runs (snd (execute_route killed_child run_1 1 (Some alice) unknown_tool_request
                     empty_world)) run_1) = Some Completed
   \<and> map_option result
       (runs (snd (execute_route killed_child run_1 1 (Some alice) unknown_tool_request
                     empty_world)) run_1)
       = Some (Some (failure_result ''metasploit'' no_args ''Unknown tool: metasploit''))
   \<and> sample_uuid_in run_1 = Inr run_1
   \<and> map_option status (runs pending_world run_1) = Some Pending
   \<and> map_option status
       (runs (snd (approve_route answering_child sample_uuid_in 2 (Some bob) run_1
                     pending_world)) run_1) = Some Completed
   \<and> map_option result
       (runs (snd (approve_route answering_child sample_uuid_in 2 (Some bob) run_1
                     pending_world)) run_1) = Some (Some dns_answer)"
proof -
  let ?fail = "failure_result ''metasploit'' no_args ''Unknown tool: metasploit''"
  let ?row = "created_run run_1 1 dns_request_for_approval"
  have n: "runs empty_world run_1 = None" by (simp add: empty_world_simps)
  have a: "requiresApproval unknown_tool_request \<noteq> Some True"
    by (simp add: unknown_tool_request_def)
  have "''metasploit'' \<notin> {''nmap'', ''domain_intel'', ''whois'', ''dns_lookup''}" by simp
  from executeTool_unknown [OF this, of killed_child no_args "[]"]
  have e: "executeTool killed_child (body_toolName unknown_tool_request)
          (body_arguments unknown_tool_request) (spawned empty_world)
        = (Resolved ?fail, [])"
    by (simp add: unknown_tool_request_def empty_world_simps)
  have r: "runs pending_world run_1 = Some ?row"
    by (simp add: pending_world_eq written_simps)
  have p: "status ?row = Pending"
    by (simp add: created_run_simps dns_request_for_approval_def)
  have d: "executeTool answering_child (toolName ?row) (arguments ?row) (spawned pending_world)
          = (Resolved dns_answer, [dig_request])"
    using executeTool_dns_sample [of "[]"]
    by (simp add: pending_world_eq written_simps empty_world_simps created_run_simps
        dns_request_for_approval_def dns_request_def)
  from routes_record_completed [of empty_world run_1 unknown_tool_request killed_child
      ?fail "[]" 1 alice] n a e
  obtain row where
    "runs (snd (execute_route killed_child run_1 1 (Some alice) unknown_tool_request
                  empty_world)) run_1 = Some row"
    "status row = Completed" "result row = Some ?fail"
    by blast
  moreover
  from routes_record_completed [of pending_world run_2 dns_request answering_child
      dns_answer "[dig_request]" 2 bob sample_uuid_in run_1 run_1 ?row] sample_uuid_in_run_1 r d
  obtain row' where
    "runs (snd (approve_route answering_child sample_uuid_in 2 (Some bob) run_1
                  pending_world)) run_1 = Some row'"
    "status row' = Completed" "result row' = Some dns_answer"
    by blast
  ultimately show ?thesis using n a e r p sample_uuid_in_run_1 by simp
qed

section \<open>Status transitions, risk level and the guard on the scan path\<close>

text \<open>
  Claim C4 on the approve route.  The run \<open>run_1\<close>, filed for approval, is \<open>pending\<close>;
  approving it runs the tool and writes \<open>completed\<close> in one statement, so its statuses
  are \<open>pending\<close>, \<open>completed\<close> with no \<open>running\<close> in between.  The execute route, for the
  same request without the approval flag, records \<open>running\<close> before it runs the tool.
\<close>

theorem approve_skips_running:
  "status_history run_1 pending_world = [Pending]
   \<and> status_history run_1
        (snd (approve_route answering_child sample_uuid_in 2 (Some bob) run_1 pending_world))
       = [Pending, Completed]
   \<and> status_history run_1 completed_world = [Running, Completed]"
proof -
  let ?row = "created_run run_1 1 dns_request_for_approval"
  have r: "runs pending_world run_1 = Some ?row"
    by (simp add: pending_world_eq written_simps)
  have e: "executeTool answering_child (toolName ?row) (arguments ?row) (spawned pending_world)
          = (Resolved dns_answer, [dig_request])"
    using executeTool_dns_sample [of "[]"]
    by (simp add: pending_world_eq written_simps empty_world_simps created_run_simps
        dns_request_for_approval_def dns_request_def)
  have p: "status_history run_1 pending_world = [Pending]"
    by (simp add: pending_world_eq status_history_written status_history_empty
        created_run_simps dns_request_for_approval_def)
  have a: "status_history run_1
        (snd (approve_route answering_child sample_uuid_in 2 (Some bob) run_1 pending_world))
       = [Pending, Completed]"
    by (simp add: approve_route_resolved [of sample_uuid_in run_1 run_1 pending_world ?row
          answering_child dns_answer "[dig_request]" 2 bob, OF sample_uuid_in_run_1 r e]
        status_history_written
        status_history_spawned approved_run_simps created_run_simps p)
  have c: "status_history run_1 completed_world = [Running, Completed]"
    by (simp add: completed_world_eq status_history_written status_history_spawned
        status_history_empty created_run_simps finished_run_simps dns_request_def)
  from p a c show ?thesis by simp
qed

text \<open>
  Claim C6, as stated, fails: a DNS lookup whose arguments carry the public target
  \<open>8.8.8.8\<close> is assessed as low risk.
\<close>

theorem risk_ignores_target_counterexample:
  "\<not> isTargetAllowed (js_string (target public_scan))
   \<and> assessRiskLevel ''dns_lookup'' public_scan = Low"
  using public_target_disallowed by (simp add: assessRiskLevel_def)

text \<open>
  Claim C6, amended.  For every scan (\<open>nmap\<close>) invocation whose target is outside the
  allow-list the risk assessor computes \<open>high\<close>, regardless of the scan type or any other
  argument.  For every tool name it does not know it computes \<open>high\<close> whatever the
  arguments.  For \<open>domain_intel\<close>, \<open>whois\<close> and \<open>dns_lookup\<close> it computes \<open>low\<close> whatever the
  arguments: a target is not consulted.  The risk level of a ToolRun is the one computed
  at creation, and neither route changes it on any row.
\<close>

theorem risk_level_assessed:
  "(\<not> isTargetAllowed (js_string (target args)) \<longrightarrow>
      assessRiskLevel ''nmap'' args = High)
   \<and> (tool \<notin> {''nmap'', ''domain_intel'', ''whois'', ''dns_lookup''} \<longrightarrow>
        assessRiskLevel tool args = High)
   \<and> (tool \<in> {''domain_intel'', ''whois'', ''dns_lookup''} \<longrightarrow>
        assessRiskLevel tool args = Low)
   \<and> (runs w fid = None \<longrightarrow>
        (\<exists>created.
            runs (snd (execute_route env fid now (Some u) body w)) fid = Some created
            \<and> riskLevel created
                = assessRiskLevel (body_toolName body) (body_arguments body)))
   \<and> (runs w i = Some row \<longrightarrow>
        (\<exists>row'. runs (snd (execute_route env fid now user body w)) i = Some row'
                \<and> riskLevel row' = riskLevel row)
        \<and> (\<exists>row'. runs (snd (approve_route env uuid_in now user j w)) i = Some row'
                \<and> riskLevel row' = riskLevel row))"
proof (intro conjI impI)
  assume "\<not> isTargetAllowed (js_string (target args))"
  then show "assessRiskLevel ''nmap'' args = High"
    by (simp add: assessRiskLevel_def assessNmapRisk_def)
next
  assume "tool \<notin> {''nmap'', ''domain_intel'', ''whois'', ''dns_lookup''}"
  then show "assessRiskLevel tool args = High"
    by (simp add: assessRiskLevel_def)
next
  assume "tool \<in> {''domain_intel'', ''whois'', ''dns_lookup''}"
  then show "assessRiskLevel tool args = Low"
    by (auto simp: assessRiskLevel_def)
next
  assume "runs w fid = None"
  from execute_route_created_row [OF this, of env now u body]
  show "\<exists>created.
            runs (snd (execute_route env fid now (Some u) body w)) fid = Some created
            \<and> riskLevel created
                = assessRiskLevel (body_toolName body) (body_arguments body)"
    by blast
next
  assume "runs w i = Some row"
  then show "\<exists>row'. runs (snd (execute_route env fid now user body w)) i = Some row'
                \<and> riskLevel row' = riskLevel row"
    by (simp add: execute_route_keeps_rows)
next
  assume "runs w i = Some row"
  from approve_route_keeps_columns [OF this, of env uuid_in now user j]
  show "\<exists>row'. runs (snd (approve_route env uuid_in now user j w)) i = Some row'
                \<and> riskLevel row' = riskLevel row"
    by blast
qed

theorem risk_level_assessed_witness:
  "\<not> isTargetAllowed (js_string (target public_scan))
   \<and> assessRiskLevel ''nmap'' public_scan = High
   \<and> ''metasploit'' \<notin> {''nmap'', ''domain_intel'', ''whois'', ''dns_lookup''}
   \<and> isTargetAllowed (js_string (target default_scan))
   \<and> assessRiskLevel ''metasploit'' default_scan = High
   \<and> ''whois'' \<in> {''domain_intel'', ''whois'', ''dns_lookup''}
   \<and> assessRiskLevel ''whois'' public_scan = Low
   \<and> runs empty_world run_1 = None
   \<and> map_option riskLevel (runs pending_world run_1) = Some Low
   \<and> map_option riskLevel
       (runs (snd (approve_route answering_child sample_uuid_in 2 (Some bob) run_1
                     pending_world)) run_1)
       = Some Low"
proof -
  let ?row = "created_run run_1 1 dns_request_for_approval"
  have a: "''metasploit'' \<notin> {''nmap'', ''domain_intel'', ''whois'', ''dns_lookup''}" by simp
  have b: "''whois'' \<in> {''domain_intel'', ''whois'', ''dns_lookup''}" by simp
  have p: "isTargetAllowed (js_string (target default_scan))"
    by (simp add: default_scan_def no_args_def js_string_def isTargetAllowed_unfold
        rx_192_prefix)
  have n: "runs empty_world run_1 = None" by (simp add: empty_world_simps)
  have r: "runs pending_world run_1 = Some ?row"
    by (simp add: pending_world_eq written_simps)
  have low: "riskLevel ?row = Low"
    by (simp add: created_run_simps dns_request_for_approval_def dns_request_def
        assessRiskLevel_def)
  from risk_level_assessed [of public_scan "''metasploit''" empty_world run_1]
    public_target_disallowed
  have h: "assessRiskLevel ''nmap'' public_scan = High" by simp
  from risk_level_assessed [of default_scan "''metasploit''" empty_world run_1] a
  have m: "assessRiskLevel ''metasploit'' default_scan = High" by simp
  from risk_level_assessed [of public_scan "''whois''" empty_world run_1] b
  have l: "assessRiskLevel ''whois'' public_scan = Low" by simp
  from risk_level_assessed [of public_scan "''nmap''" pending_world run_2 answering_child 2
      bob dns_request run_1 ?row "Some bob" sample_uuid_in run_1] r
  obtain row' where
    "runs (snd (approve_route answering_child sample_uuid_in 2 (Some bob) run_1
                  pending_world)) run_1 = Some row'"
    "riskLevel row' = riskLevel ?row"
    by blast
  with a b p n r low h m l public_target_disallowed show ?thesis by simp
qed

text \<open>
  Claim C7, as stated, fails: a scan of \<open>8.8.8.8\<close> requested without the approval flag
  creates its run in status \<open>running\<close>, before the adapter is called.
\<close>

theorem disallowed_scan_running_counterexample:
  "\<not> isTargetAllowed (js_string (target (body_arguments public_scan_request)))
   \<and> status_history run_1
        (snd (execute_route killed_child run_1 1 (Some alice) public_scan_request
                empty_world))
       = [Running, Completed]"
proof -
  have "executeTool killed_child (body_toolName public_scan_request)
          (body_arguments public_scan_request) (spawned empty_world)
        = (Resolved (failure_result ''nmap'' public_scan target_not_allowed), [])"
    using executeTool_nmap_disallowed [OF public_target_disallowed, of killed_child "[]"]
    by (simp add: public_scan_request_def empty_world_simps)
  moreover have "requiresApproval public_scan_request \<noteq> Some True"
    by (simp add: public_scan_request_def)
  moreover have "body_arguments public_scan_request = public_scan"
    by (simp add: public_scan_request_def)
  ultimately show ?thesis
    using public_target_disallowed
    by (simp add: execute_route_resolved empty_world_simps status_history_written
        status_history_spawned status_history_empty created_run_simps finished_run_simps)
qed

text \<open>
  Claim C7, amended.  For every scan invocation whose target is not allowed by the
  target policy guard, the scan adapter rejects before any OS process is spawned:
  \<open>executeNmap\<close> throws with the spawn log untouched, \<open>executeTool\<close> reports the rejection
  as a failed ToolResult, and neither the execute route nor the approve route spawns a
  process for such a run.
\<close>

theorem disallowed_scan_never_spawns:
  "\<not> isTargetAllowed (js_string (target args)) \<longrightarrow>
     executeNmap env args log = (Rejected (Error target_not_allowed), log)
     \<and> executeTool env ''nmap'' args log
         = (Resolved (failure_result ''nmap'' args target_not_allowed), log)
     \<and> (body_toolName body = ''nmap'' \<and> body_arguments body = args \<longrightarrow>
          spawned (snd (execute_route env fid now user body w)) = spawned w)
     \<and> (uuid_in i = Inr k \<and> runs w k = Some row \<and> toolName row = ''nmap''
          \<and> arguments row = args \<longrightarrow>
          spawned (snd (approve_route env uuid_in now user i w)) = spawned w)"
proof (intro conjI impI)
  assume d: "\<not> isTargetAllowed (js_string (target args))"
  then show "executeNmap env args log = (Rejected (Error target_not_allowed), log)"
    by (rule executeNmap_disallowed)
  from d show "executeTool env ''nmap'' args log
         = (Resolved (failure_result ''nmap'' args target_not_allowed), log)"
    by (rule executeTool_nmap_disallowed)
  {
    assume b: "body_toolName body = ''nmap'' \<and> body_arguments body = args"
    have t: "executeTool env (body_toolName body) (body_arguments body) (spawned w)
          = (Resolved (failure_result ''nmap'' args target_not_allowed), spawned w)"
      using b executeTool_nmap_disallowed [OF d, of env "spawned w"] by simp
    show "spawned (snd (execute_route env fid now user body w)) = spawned w"
    proof (cases user)
      case None
      then show ?thesis by (simp add: execute_route_unauthenticated)
    next
      case (Some u)
      show ?thesis
      proof (cases "runs w fid")
        case (Some r)
        with \<open>user = Some u\<close> show ?thesis by (simp add: execute_route_duplicate)
      next
        case None
        show ?thesis
        proof (cases "requiresApproval body = Some True")
          case True
          with None \<open>user = Some u\<close> show ?thesis
            by (simp add: execute_route_pending written_simps)
        next
          case False
          with None \<open>user = Some u\<close> t show ?thesis
            by (simp add: execute_route_resolved written_simps)
        qed
      qed
    qed
  }
  {
    assume b: "uuid_in i = Inr k \<and> runs w k = Some row \<and> toolName row = ''nmap''
          \<and> arguments row = args"
    then have c: "uuid_in i = Inr k" and r: "runs w k = Some row" by simp_all
    have t: "executeTool env (toolName row) (arguments row) (spawned w)
          = (Resolved (failure_result ''nmap'' args target_not_allowed), spawned w)"
      using b executeTool_nmap_disallowed [OF d, of env "spawned w"] by simp
    show "spawned (snd (approve_route env uuid_in now user i w)) = spawned w"
    proof (cases user)
      case None
      then show ?thesis by (simp add: approve_route_unauthenticated)
    next
      case (Some u)
      then show ?thesis
        by (simp add: approve_route_resolved [of uuid_in i k, OF c r t] written_simps)
    qed
  }
qed

theorem disallowed_scan_never_spawns_witness:
  "\<not> isTargetAllowed (js_string (target public_scan))
   \<and> executeNmap killed_child public_scan [] = (Rejected (Error target_not_allowed), [])
   \<and> body_toolName public_scan_request = ''nmap''
   \<and> body_arguments public_scan_request = public_scan
   \<and> spawned (snd (execute_route killed_child run_1 1 (Some alice) public_scan_request
                     empty_world)) = []
   \<and> sample_uuid_in run_2 = Inr run_2
   \<and> map_option toolName (runs pending_scan_world run_2) = Some ''nmap''
   \<and> map_option arguments (runs pending_scan_world run_2) = Some public_scan
   \<and> spawned (snd (approve_route killed_child sample_uuid_in 2 (Some bob) run_2
                     pending_scan_world)) = []"
proof -
  let ?row = "created_run run_2 1 public_scan_for_approval"
  have a: "body_toolName public_scan_request = ''nmap''"
    and b: "body_arguments public_scan_request = public_scan"
    by (simp_all add: public_scan_request_def)
  have r: "runs pending_scan_world run_2 = Some ?row"
    by (simp add: pending_scan_world_eq written_simps)
  have t: "toolName ?row = ''nmap''" and g: "arguments ?row = public_scan"
    by (simp_all add: created_run_simps public_scan_for_approval_def public_scan_def)
  have s: "spawned pending_scan_world = []"
    by (simp add: pending_scan_world_eq written_simps empty_world_simps)
  from disallowed_scan_never_spawns [of public_scan killed_child "[]" public_scan_request
      "run_1" 1 "Some alice" empty_world] public_target_disallowed a b
  have "executeNmap killed_child public_scan [] = (Rejected (Error target_not_allowed), [])"
    and "spawned (snd (execute_route killed_child run_1 1 (Some alice) public_scan_request
                     empty_world)) = spawned empty_world"
    by simp_all
  moreover
  from disallowed_scan_never_spawns [of public_scan killed_child "[]" public_scan_request
      "run_1" 2 "Some bob" pending_scan_world sample_uuid_in run_2 run_2 ?row]
    public_target_disallowed sample_uuid_in_run_2 r t g
  have "spawned (snd (approve_route killed_child sample_uuid_in 2 (Some bob) run_2
                     pending_scan_world)) = spawned pending_scan_world"
    by simp
  ultimately show ?thesis
    using public_target_disallowed a b r t g s sample_uuid_in_run_2
    by (simp add: empty_world_simps)
qed

end
